theory Spec2Isabelle
  imports Main "HOL-Library.Word"
begin

section \<open>Python values and exceptions\<close>

text \<open>
  The repository is Python glue around three libraries: an image library (PNG
  serialisation), a prompt/chain library (templates, structured output, batching) and a
  schema library (typed result models). Exceptions are values: every operation that can
  raise returns \<open>error + 'a\<close>, with \<open>Inl\<close> for the exception.
\<close>

text \<open>The kinds of field error a schema validation reports.\<close>

datatype issue =
    Missing
  | Int_type
  | String_type
  | Greater_than_equal
  | Less_than_equal
  | Literal_error

type_synonym issues = "(string \<times> issue) list"

datatype error =
    KeyError string
  | NameError string
  | ValueError string
  | AttributeError string
  | ValidationError issues
  | OutputParserException
  | ImageError string
  | ModelError string

text \<open>Sequencing of operations that may raise: the first exception ends the run.\<close>

definition and_then :: "error + 'a \<Rightarrow> ('a \<Rightarrow> error + 'b) \<Rightarrow> error + 'b" where
  "and_then m f = (case m of Inl e \<Rightarrow> Inl e | Inr a \<Rightarrow> f a)"

text \<open>\<open>d[k]\<close> on a dict written as a literal with distinct keys.\<close>

definition getitem :: "(string \<times> 'v) list \<Rightarrow> string \<Rightarrow> error + 'v" where
  "getitem d k = (case map_of d k of None \<Rightarrow> Inl (KeyError k) | Some v \<Rightarrow> Inr v)"

section \<open>Prompt catalog (\<^verbatim>\<open>gpt_evaluators/prompts.py\<close>)\<close>

definition DEFAULT_ALIGNMENT_DESIGN_PRINCIPLE :: string where
  \<open>DEFAULT_ALIGNMENT_DESIGN_PRINCIPLE =
     ''Correct alignment is an important aspect of design that has been modeled in other layout applications. Text and graphic elements are aligned on the page to indicate organizational structure and aesthetics.\<newline>'' @
     ''\<newline>'' @
     ''Please evaluate the alignment of the input graphic design considering the following points.\<newline>'' @
     ''\<newline>'' @
     ''1. Alignment along with the horizontal and vertical direction is considered.\<newline>'' @
     ''2. The elements that align at a glance but slight misalignment are penalized because it is visually displeasing.\<newline>'' @
     ''3. Larger alignment groups (i.e., aligned elements that are distant from each other) are preferred as they produce simpler designs with more unity between elements.''\<close>

definition DEFAULT_OVERLAP_DESIGN_PRINCIPLE :: string where
  \<open>DEFAULT_OVERLAP_DESIGN_PRINCIPLE =
     ''Overlapping elements are common in many designs and absent from others.\<newline>'' @
     ''Less or proper overlapping might be considered aesthetically pleasing, but others are not.\<newline>'' @
     ''\<newline>'' @
     ''Please consider the following points to evaluate the overlap.\<newline>'' @
     ''\<newline>'' @
     ''1. The three types of overlap, the overlap of elements on text, the overlap of text on graphics, and the overlap of graphics on other graphics, are considered.\<newline>'' @
     ''2. Hard-to-read text because of insufficient color contrast between a text and the background color is penalized.\<newline>'' @
     ''3. The graphic design that includes elements extending past the boundaries is also penalized.''\<close>

definition DEFAULT_WHITE_SPACE_DESIGN_PRINCIPLE :: string where
  \<open>DEFAULT_WHITE_SPACE_DESIGN_PRINCIPLE =
     ''White space in graphic designs is fundamental for readability and aesthetics. Element distance is also closely related to the principle of proximity, as elements placed near each other may appear to be related. White space also influences the overall design style; many modern designs use significant white space. White space 'trapped' between elements can also be distracting. \<newline>'' @
     ''\<newline>'' @
     ''Evaluate the white space considering the following points.\<newline>'' @
     ''\<newline>'' @
     ''1.A large ratio of white space that is not covered by design elements (e.g., graphics and tests) is preferred.\<newline>'' @
     ''2. However, the graphic design with a too large region of empty white space on the image is undesirable.\<newline>'' @
     ''3. The greater the distance between each element is preferred.\<newline>'' @
     ''4. Uniformed vertical spacing of each text element is preferred.\<newline>'' @
     ''5. Wider border margins for each element are preferred.''\<close>

definition DESIGN_PRINCIPLES :: "(string \<times> string) list" where
  "DESIGN_PRINCIPLES =
     [(''alignment'', DEFAULT_ALIGNMENT_DESIGN_PRINCIPLE),
      (''overlap'', DEFAULT_OVERLAP_DESIGN_PRINCIPLE),
      (''whitespace'', DEFAULT_WHITE_SPACE_DESIGN_PRINCIPLE)]"

section \<open>Result schemas\<close>

text \<open>
  A reply of the model, once read as JSON, is an object whose members are integers,
  strings or other JSON values (kept by their text). What does not read as a JSON object
  is \<open>Malformed\<close>.
\<close>

datatype json = JInt int | JStr string | JOther string

datatype reply = Object "string \<rightharpoonup> json" | Malformed string

text \<open>
  The schema library's own conversions are parameters: \<open>lax_int\<close> and \<open>lax_str\<close> say
  what it makes of a member that is not already of the field's type (a numeric string
  for an integer field, say); \<open>None\<close> is a type error. The image library's PNG
  serialiser and the prompt library's handling of replacement fields that are not plain
  names are parameters too.
\<close>

type_synonym byte = "8 word"

record 'img libs =
  png_save :: "'img \<Rightarrow> string + byte list"
  lax_int :: "json \<Rightarrow> int option"
  lax_str :: "json \<Rightarrow> string option"
  fstring_check :: "string \<Rightarrow> error option"
  fstring_format :: "string \<Rightarrow> (string \<rightharpoonup> string) \<Rightarrow> error + string"

text \<open>Field validators: the member is looked up, converted, then constrained.\<close>

definition int_field :: "'img libs \<Rightarrow> (string \<rightharpoonup> json) \<Rightarrow> string \<Rightarrow> issues + int" where
  "int_field L obj name =
     (case obj name of
        None \<Rightarrow> Inl [(name, Missing)]
      | Some (JInt n) \<Rightarrow> Inr n
      | Some j \<Rightarrow> (case lax_int L j of None \<Rightarrow> Inl [(name, Int_type)] | Some n \<Rightarrow> Inr n))"

definition str_field :: "'img libs \<Rightarrow> (string \<rightharpoonup> json) \<Rightarrow> string \<Rightarrow> issues + string" where
  "str_field L obj name =
     (case obj name of
        None \<Rightarrow> Inl [(name, Missing)]
      | Some (JStr s) \<Rightarrow> Inr s
      | Some j \<Rightarrow> (case lax_str L j of None \<Rightarrow> Inl [(name, String_type)] | Some s \<Rightarrow> Inr s))"

text \<open>A \<open>Literal[...]\<close> field takes a string as it is (no conversion).\<close>

definition literal_field :: "(string \<rightharpoonup> json) \<Rightarrow> string \<Rightarrow> issues + string" where
  "literal_field obj name =
     (case obj name of
        None \<Rightarrow> Inl [(name, Missing)]
      | Some (JStr s) \<Rightarrow> Inr s
      | Some j \<Rightarrow> Inl [(name, Literal_error)])"

text \<open>\<open>Field(ge=lo, le=hi)\<close>.\<close>

definition ge_le :: "string \<Rightarrow> int \<Rightarrow> int \<Rightarrow> issues + int \<Rightarrow> issues + int" where
  "ge_le name lo hi v =
     (case v of
        Inl is \<Rightarrow> Inl is
      | Inr n \<Rightarrow>
          if n < lo then Inl [(name, Greater_than_equal)]
          else if hi < n then Inl [(name, Less_than_equal)]
          else Inr n)"

text \<open>\<open>Literal[c1, ..., ck]\<close>.\<close>

definition one_of :: "string \<Rightarrow> string list \<Rightarrow> issues + string \<Rightarrow> issues + string" where
  "one_of name allowed v =
     (case v of
        Inl is \<Rightarrow> Inl is
      | Inr s \<Rightarrow> if List.member allowed s then Inr s else Inl [(name, Literal_error)])"

text \<open>
  A model with two fields is built when both fields validate; otherwise one
  \<open>ValidationError\<close> carries the issues of all fields, in declaration order.
\<close>

definition two_fields :: "issues + 'a \<Rightarrow> issues + 'b \<Rightarrow> ('a \<Rightarrow> 'b \<Rightarrow> 'r) \<Rightarrow> error + 'r" where
  "two_fields a b mk =
     (case (a, b) of
        (Inr x, Inr y) \<Rightarrow> Inr (mk x y)
      | (Inl is, Inr y) \<Rightarrow> Inl (ValidationError is)
      | (Inr x, Inl js) \<Rightarrow> Inl (ValidationError js)
      | (Inl is, Inl js) \<Rightarrow> Inl (ValidationError (is @ js)))"

subsection \<open>\<^verbatim>\<open>EvaluationResult\<close> (\<^verbatim>\<open>evaluator.py\<close>)\<close>

record EvaluationResult =
  score :: int
  explanation :: string

definition EvaluationResult_validate :: "'img libs \<Rightarrow> (string \<rightharpoonup> json) \<Rightarrow> error + EvaluationResult" where
  "EvaluationResult_validate L obj =
     two_fields (ge_le ''score'' 1 10 (int_field L obj ''score''))
                (str_field L obj ''explanation'')
                (\<lambda>s e. \<lparr>EvaluationResult.score = s, explanation = e\<rparr>)"

text \<open>\<open>EvaluationResult(score=s, explanation=e)\<close> on an integer and a string.\<close>

definition EvaluationResult :: "int \<Rightarrow> string \<Rightarrow> error + EvaluationResult" where
  "EvaluationResult s e =
     two_fields (ge_le ''score'' 1 10 (Inr s)) (Inr e)
                (\<lambda>s e. \<lparr>EvaluationResult.score = s, explanation = e\<rparr>)"

subsection \<open>\<^verbatim>\<open>AbsoluteEvaluationResult\<close> (\<^verbatim>\<open>gpt_evaluators/absolute_evaluator.py\<close>)\<close>

record AbsoluteEvaluationResult =
  score :: int
  explanation :: string

definition AbsoluteEvaluationResult_validate ::
    "'img libs \<Rightarrow> (string \<rightharpoonup> json) \<Rightarrow> error + AbsoluteEvaluationResult" where
  "AbsoluteEvaluationResult_validate L obj =
     two_fields (ge_le ''score'' 1 10 (int_field L obj ''score''))
                (str_field L obj ''explanation'')
                (\<lambda>s e. \<lparr>AbsoluteEvaluationResult.score = s, explanation = e\<rparr>)"

definition AbsoluteEvaluationResult :: "int \<Rightarrow> string \<Rightarrow> error + AbsoluteEvaluationResult" where
  "AbsoluteEvaluationResult s e =
     two_fields (ge_le ''score'' 1 10 (Inr s)) (Inr e)
                (\<lambda>s e. \<lparr>AbsoluteEvaluationResult.score = s, explanation = e\<rparr>)"

subsection \<open>\<^verbatim>\<open>RelativeEvaluationResult\<close> (\<^verbatim>\<open>gpt_evaluators/relative_evaluator.py\<close>)\<close>

record RelativeEvaluationResult =
  better_design :: string
  explanation :: string

definition better_design_tags :: "string list" where
  "better_design_tags = [''none'', ''small'', ''medium'', ''large'', ''both'']"

definition RelativeEvaluationResult_validate ::
    "'img libs \<Rightarrow> (string \<rightharpoonup> json) \<Rightarrow> error + RelativeEvaluationResult" where
  "RelativeEvaluationResult_validate L obj =
     two_fields (one_of ''better_design'' better_design_tags (literal_field obj ''better_design''))
                (str_field L obj ''explanation'')
                (\<lambda>b e. \<lparr>better_design = b, explanation = e\<rparr>)"

definition RelativeEvaluationResult :: "string \<Rightarrow> string \<Rightarrow> error + RelativeEvaluationResult" where
  "RelativeEvaluationResult b e =
     two_fields (one_of ''better_design'' better_design_tags (Inr b)) (Inr e)
                (\<lambda>b e. \<lparr>better_design = b, explanation = e\<rparr>)"

section \<open>Image encoder (\<^verbatim>\<open>utils.py\<close>)\<close>

text \<open>
  \<open>base64.b64encode\<close>: three bytes become four characters of the standard alphabet;
  a last group of one or two bytes is padded with \<open>=\<close>.
\<close>

definition b64_alphabet :: string where
  "b64_alphabet = ''ABCDEFGHIJKLMNOPQRSTUVWXYZabcdefghijklmnopqrstuvwxyz0123456789+/''"

definition sextet :: "nat \<Rightarrow> char" where
  "sextet i = b64_alphabet ! (i mod 64)"

fun b64encode :: "byte list \<Rightarrow> string" where
  "b64encode [] = []"
| "b64encode [a] =
     [sextet (unat a div 4), sextet (unat a mod 4 * 16), CHR ''='', CHR ''='']"
| "b64encode [a, b] =
     [sextet (unat a div 4), sextet (unat a mod 4 * 16 + unat b div 16),
      sextet (unat b mod 16 * 4), CHR ''='']"
| "b64encode (a # b # c # rest) =
     [sextet (unat a div 4), sextet (unat a mod 4 * 16 + unat b div 16),
      sextet (unat b mod 16 * 4 + unat c div 64), sextet (unat c mod 64)] @ b64encode rest"

text \<open>
  \<open>image_to_base64\<close>: the image is saved as PNG into a fresh in-memory buffer and the
  buffer's bytes are base64-encoded. \<open>png_save L image\<close> is what \<open>image.save\<close> writes into
  the empty buffer, or the image library's exception. The base64 bytes are ASCII, so
  decoding them as UTF-8 gives the same characters.
\<close>

definition image_to_base64 :: "'img libs \<Rightarrow> 'img \<Rightarrow> error + string" where
  "image_to_base64 L img =
     (case png_save L img of
        Inl m \<Rightarrow> Inl (ImageError m)
      | Inr buffered \<Rightarrow> Inr (b64encode buffered))"

text \<open>The method \<open>GPTGraphicDesignEvaluator._image_to_base64\<close> of \<^verbatim>\<open>evaluator.py\<close>.\<close>

definition evaluator_image_to_base64 :: "'img libs \<Rightarrow> 'img \<Rightarrow> error + string" where
  "evaluator_image_to_base64 L img =
     (case png_save L img of
        Inl m \<Rightarrow> Inl (ImageError m)
      | Inr buffered \<Rightarrow> Inr (b64encode buffered))"

section \<open>Prompt templates\<close>

text \<open>
  A template is a Python format string. \<open>{{\<close> and \<open>}}\<close> are literal braces, \<open>{name}\<close>
  is a replacement field, a single brace that opens or closes nothing is a
  \<open>ValueError\<close>, raised when the template is built. Fields that are plain names are
  modelled here; a template with any other field (a conversion, a format spec, an index,
  an unterminated field) is left to the library: \<open>fstring_check\<close> is its verdict when the
  template is built and \<open>fstring_format\<close> its formatting.
\<close>

datatype segment = Lit char | Var string

datatype scan = Segments "segment list" | Bad error | Exotic

definition ident_char :: "char \<Rightarrow> bool" where
  "ident_char c =
     (let n = (of_char c :: nat)
      in (65 \<le> n \<and> n \<le> 90) \<or> (97 \<le> n \<and> n \<le> 122) \<or> (48 \<le> n \<and> n \<le> 57) \<or> n = 95)"

definition digit_char :: "char \<Rightarrow> bool" where
  "digit_char c = (let n = (of_char c :: nat) in 48 \<le> n \<and> n \<le> 57)"

definition scan_cons :: "segment \<Rightarrow> scan \<Rightarrow> scan" where
  "scan_cons x r = (case r of Segments s \<Rightarrow> Segments (x # s) | Bad e \<Rightarrow> Bad e | Exotic \<Rightarrow> Exotic)"

fun scan_template :: "string \<Rightarrow> scan"
  and scan_field :: "string \<Rightarrow> string \<Rightarrow> scan" where
  "scan_template [] = Segments []"
| "scan_template [c] =
     (if c = CHR ''{'' then Bad (ValueError ''Single '{' encountered in format string'')
      else if c = CHR ''}'' then Bad (ValueError ''Single '}' encountered in format string'')
      else Segments [Lit c])"
| "scan_template (c # d # cs) =
     (if c = CHR ''{'' then
        (if d = CHR ''{'' then scan_cons (Lit c) (scan_template cs) else scan_field [] (d # cs))
      else if c = CHR ''}'' then
        (if d = CHR ''}'' then scan_cons (Lit c) (scan_template cs)
         else Bad (ValueError ''Single '}' encountered in format string''))
      else scan_cons (Lit c) (scan_template (d # cs)))"
| "scan_field name [] = Exotic"
| "scan_field name (c # cs) =
     (if ident_char c then scan_field (name @ [c]) cs
      else if c = CHR ''}'' \<and> name \<noteq> [] \<and> \<not> digit_char (hd name)
      then scan_cons (Var name) (scan_template cs)
      else Exotic)"

datatype template = Plain "segment list" | Other string

text \<open>\<open>PromptTemplate.from_template\<close> and its relatives: the template is parsed at once.\<close>

definition from_template :: "'img libs \<Rightarrow> string \<Rightarrow> error + template" where
  "from_template L t =
     (case scan_template t of
        Segments s \<Rightarrow> Inr (Plain s)
      | Bad e \<Rightarrow> Inl e
      | Exotic \<Rightarrow> (case fstring_check L t of Some e \<Rightarrow> Inl e | None \<Rightarrow> Inr (Other t)))"

fun format_segments :: "segment list \<Rightarrow> (string \<rightharpoonup> string) \<Rightarrow> error + string" where
  "format_segments [] vars = Inr []"
| "format_segments (Lit c # s) vars = and_then (format_segments s vars) (\<lambda>r. Inr (c # r))"
| "format_segments (Var v # s) vars =
     (case vars v of
        None \<Rightarrow> Inl (KeyError v)
      | Some x \<Rightarrow> and_then (format_segments s vars) (\<lambda>r. Inr (x @ r)))"

fun format_template :: "'img libs \<Rightarrow> template \<Rightarrow> (string \<rightharpoonup> string) \<Rightarrow> error + string" where
  "format_template L (Plain s) vars = format_segments s vars"
| "format_template L (Other t) vars = fstring_format L t vars"

text \<open>Running an operation over a list, stopping at the first exception.\<close>

fun traverse :: "('a \<Rightarrow> error + 'b) \<Rightarrow> 'a list \<Rightarrow> error + 'b list" where
  "traverse f [] = Inr []"
| "traverse f (x # xs) = and_then (f x) (\<lambda>y. and_then (traverse f xs) (\<lambda>ys. Inr (y # ys)))"

subsection \<open>Chat prompts\<close>

text \<open>
  The content blocks of the user message as the evaluators write them, the same blocks
  once their texts are parsed as templates, and the blocks of a formatted message.
\<close>

datatype block = Text_block string | Image_url_block string

datatype block_template = Text_template template | Image_url_template template

datatype message = System string | User "block list"

record chat_prompt =
  system_template :: template
  user_templates :: "block_template list"

definition block_from_template :: "'img libs \<Rightarrow> block \<Rightarrow> error + block_template" where
  "block_from_template L b =
     (case b of
        Text_block t \<Rightarrow> and_then (from_template L t) (\<lambda>x. Inr (Text_template x))
      | Image_url_block u \<Rightarrow> and_then (from_template L u) (\<lambda>x. Inr (Image_url_template x)))"

text \<open>\<open>ChatPromptTemplate.from_messages([system_prompt, ("user", blocks)])\<close>.\<close>

definition from_messages :: "'img libs \<Rightarrow> template \<Rightarrow> block list \<Rightarrow> error + chat_prompt" where
  "from_messages L system_prompt blocks =
     and_then (traverse (block_from_template L) blocks)
       (\<lambda>bs. Inr \<lparr>system_template = system_prompt, user_templates = bs\<rparr>)"

definition format_block :: "'img libs \<Rightarrow> (string \<rightharpoonup> string) \<Rightarrow> block_template \<Rightarrow> error + block" where
  "format_block L vars b =
     (case b of
        Text_template t \<Rightarrow> and_then (format_template L t vars) (\<lambda>x. Inr (Text_block x))
      | Image_url_template u \<Rightarrow> and_then (format_template L u vars) (\<lambda>x. Inr (Image_url_block x)))"

definition format_messages :: "'img libs \<Rightarrow> chat_prompt \<Rightarrow> (string \<rightharpoonup> string) \<Rightarrow> error + message list" where
  "format_messages L prompt vars =
     and_then (format_template L (system_template prompt) vars)
       (\<lambda>s. and_then (traverse (format_block L vars) (user_templates prompt))
         (\<lambda>bs. Inr [System s, User bs]))"

section \<open>The chat model and the chain\<close>

text \<open>
  The chat model is a collaborator with a state of its own. \<open>with_structured_output\<close>
  may refuse a schema (\<open>Some\<close> is the exception's message); \<open>generate\<close> answers one
  request with a reply or fails with a transport error. The request carries the schema it
  was bound to. What the structured-output step makes of a reply that holds no readable
  object depends on how the model binds the schema: \<open>unreadable\<close> gives the exception it
  raises (a parser exception, when the reply is parsed as JSON text), or \<open>None\<close> when it
  raises nothing and yields Python's \<open>None\<close> (tool calling, when the reply carries no
  usable tool call). The \<open>world\<close> holds the model's state and the requests dispatched
  so far.
\<close>

datatype schema =
    EvaluationResult_schema
  | AbsoluteEvaluationResult_schema
  | RelativeEvaluationResult_schema

record request =
  output_schema :: schema
  messages :: "message list"

record 's chat_model =
  with_structured_output :: "schema \<Rightarrow> string option"
  generate :: "request \<Rightarrow> 's \<Rightarrow> (string + reply) \<times> 's"
  unreadable :: "string \<Rightarrow> error option"

record 's world =
  model_state :: 's
  sent :: "request list"

definition structured_output :: "'s chat_model \<Rightarrow> schema \<Rightarrow> error + schema" where
  "structured_output llm sch =
     (case with_structured_output llm sch of Some m \<Rightarrow> Inl (ModelError m) | None \<Rightarrow> Inr sch)"

definition send :: "'s chat_model \<Rightarrow> request \<Rightarrow> 's world \<Rightarrow> (string + reply) \<times> 's world" where
  "send llm q w =
     (case generate llm q (model_state w) of
        (out, s') \<Rightarrow> (out, \<lparr>model_state = s', sent = sent w @ [q]\<rparr>))"

fun send_all :: "'s chat_model \<Rightarrow> request list \<Rightarrow> 's world \<Rightarrow> (string + reply) list \<times> 's world" where
  "send_all llm [] w = ([], w)"
| "send_all llm (q # qs) w =
     (case send llm q w of
        (out, w') \<Rightarrow> (case send_all llm qs w' of (outs, w'') \<Rightarrow> (out # outs, w'')))"

definition received :: "string + reply \<Rightarrow> error + reply" where
  "received out = (case out of Inl m \<Rightarrow> Inl (ModelError m) | Inr r \<Rightarrow> Inr r)"

text \<open>
  The structured-output step. An object is validated by the schema: the result is the
  schema's instance, or the validation error is raised. A reply with no readable object
  is the binding's affair: its exception is raised, or the result is Python's \<open>None\<close>
  (\<open>None\<close> here, an instance being \<open>Some\<close>).
\<close>

definition structured ::
    "'s chat_model \<Rightarrow> ((string \<rightharpoonup> json) \<Rightarrow> error + 'r) \<Rightarrow> reply \<Rightarrow> error + 'r option" where
  "structured llm validate r =
     (case r of
        Malformed raw \<Rightarrow> (case unreadable llm raw of Some e \<Rightarrow> Inl e | None \<Rightarrow> Inr None)
      | Object obj \<Rightarrow> and_then (validate obj) (\<lambda>x. Inr (Some x)))"

text \<open>
  \<open>chain.invoke(input)\<close> for \<open>chain = prompt | llm.with_structured_output(schema)\<close>:
  format the prompt, ask the model, validate the reply.
\<close>

definition chain_invoke ::
    "'img libs \<Rightarrow> 's chat_model \<Rightarrow> chat_prompt \<Rightarrow> schema \<Rightarrow> ((string \<rightharpoonup> json) \<Rightarrow> error + 'r) \<Rightarrow>
     (string \<rightharpoonup> string) \<Rightarrow> 's world \<Rightarrow> (error + 'r option) \<times> 's world" where
  "chain_invoke L llm prompt sch validate input_data w =
     (case format_messages L prompt input_data of
        Inl e \<Rightarrow> (Inl e, w)
      | Inr ms \<Rightarrow>
          (case send llm \<lparr>output_schema = sch, messages = ms\<rparr> w of
             (out, w') \<Rightarrow> (and_then (received out) (structured llm validate), w')))"

text \<open>
  \<open>chain.batch(inputs)\<close> runs the chain's steps one after the other, each over the whole
  batch: all prompts are formatted, then all requests are dispatched (in index order
  here), then all replies are validated. The first exception of a step is raised.
\<close>

definition chain_batch ::
    "'img libs \<Rightarrow> 's chat_model \<Rightarrow> chat_prompt \<Rightarrow> schema \<Rightarrow> ((string \<rightharpoonup> json) \<Rightarrow> error + 'r) \<Rightarrow>
     (string \<rightharpoonup> string) list \<Rightarrow> 's world \<Rightarrow> (error + 'r option list) \<times> 's world" where
  "chain_batch L llm prompt sch validate inputs w =
     (case traverse (format_messages L prompt) inputs of
        Inl e \<Rightarrow> (Inl e, w)
      | Inr mss \<Rightarrow>
          (case send_all llm (map (\<lambda>ms. \<lparr>output_schema = sch, messages = ms\<rparr>) mss) w of
             (outs, w') \<Rightarrow>
               (and_then (traverse received outs) (traverse (structured llm validate)), w')))"

text \<open>\<open>x or default\<close> on an optional string: \<open>None\<close> and the empty string are falsy.\<close>

definition or_default :: "string option \<Rightarrow> string \<Rightarrow> string" where
  "or_default x d = (case x of None \<Rightarrow> d | Some s \<Rightarrow> if s = [] then d else s)"

section \<open>The single-result evaluator (\<^verbatim>\<open>evaluator.py\<close>)\<close>

definition SYSTEM_PROMPT :: string where
  \<open>SYSTEM_PROMPT =
     ''You are an autonomous AI Assistant who aids designers by providing insightful, objective, and constructive critiques of graphic design projects. Your goals are: "Deliver comprehensive and unbiased evaluations of graphic designs based on the following design principles."\<newline>'' @
     ''\<newline>'' @
     ''Grade seriously. The range of scores is from 1 to 10. A flawless design can earn 10 points, a mediocre design can only earn 7 points, a design with obvious shortcomings can only earn 4 points, and a very poor design can only earn 1-2 points.\<newline>'' @
     ''\<newline>'' @
     ''{design_principle}\<newline>'' @
     ''\<newline>'' @
     ''If the output is too long, it will be truncated. Only respond in JSON format, no other information. Example of output for a better graphic design:\<newline>'' @
     ''\<newline>'' @
     ''{{\<newline>'' @
     ''    "score": 6, \<newline>'' @
     ''    "explanation": "Please concisely explain the reason of the score."\<newline>'' @
     ''}}''\<close>

definition evaluator_USER_PROMPT :: string where
  \<open>evaluator_USER_PROMPT =
     ''Please score the following images.''\<close>

definition evaluator_user_prompt :: "block list" where
  "evaluator_user_prompt =
     [Text_block evaluator_USER_PROMPT, Image_url_block ''data:image/png;base64,{base64_image}'']"

text \<open>\<open>GPTGraphicDesignEvaluator.evaluate\<close>.\<close>

definition evaluator_evaluate ::
    "'s chat_model \<Rightarrow> 'img libs \<Rightarrow> 'img \<Rightarrow> string \<Rightarrow> string option \<Rightarrow> 's world \<Rightarrow>
     (error + EvaluationResult option) \<times> 's world" where
  "evaluator_evaluate llm L img design_principle_prompt system_prompt_template w =
     (case
        and_then (from_template L (or_default system_prompt_template SYSTEM_PROMPT))
          (\<lambda>system_prompt. and_then (from_messages L system_prompt evaluator_user_prompt)
          (\<lambda>prompt. and_then (structured_output llm EvaluationResult_schema)
          (\<lambda>sch. and_then (evaluator_image_to_base64 L img)
          (\<lambda>b64. Inr (prompt, sch,
                 [''design_principle'' \<mapsto> design_principle_prompt, ''base64_image'' \<mapsto> b64])))))
      of
        Inl e \<Rightarrow> (Inl e, w)
      | Inr (prompt, sch, input_data) \<Rightarrow>
          chain_invoke L llm prompt sch (EvaluationResult_validate L) input_data w)"

section \<open>The absolute evaluator (\<^verbatim>\<open>gpt_evaluators/absolute_evaluator.py\<close>)\<close>

definition absolute_DEFAULT_SYSTEM_PROMPT :: string where
  \<open>absolute_DEFAULT_SYSTEM_PROMPT =
     ''You are an autonomous AI Assistant who aids designers by providing insightful, objective, and constructive critiques of graphic design projects. Your goals are: "Deliver comprehensive and unbiased evaluations of graphic designs based on the following design principles."\<newline>'' @
     ''\<newline>'' @
     ''Grade seriously. The range of scores is from 1 to 10. A flawless design can earn 10 points, a mediocre design can only earn 7 points, a design with obvious shortcomings can only earn 4 points, and a very poor design can only earn 1-2 points.\<newline>'' @
     ''\<newline>'' @
     ''{design_principle}\<newline>'' @
     ''\<newline>'' @
     ''If the output is too long, it will be truncated. Only respond in JSON format, no other information. Example of output for a better graphic design:\<newline>'' @
     ''\<newline>'' @
     ''{{\<newline>'' @
     ''    "score": 6, \<newline>'' @
     ''    "explanation": "Please concisely explain the reason of the score."\<newline>'' @
     ''}}''\<close>

definition absolute_USER_PROMPT :: string where
  \<open>absolute_USER_PROMPT =
     ''Please score the following images.''\<close>

definition absolute_user_prompt :: "block list" where
  "absolute_user_prompt =
     [Text_block absolute_USER_PROMPT, Image_url_block ''data:image/png;base64,{base64_image}'']"

text \<open>
  \<open>GPTGraphicDesignAbsoluteEvaluator.evaluate\<close>. \<open>[input_data] * num_return\<close> is the
  empty list for a \<open>num_return\<close> that is not positive.
\<close>

definition absolute_evaluate ::
    "'s chat_model \<Rightarrow> 'img libs \<Rightarrow> 'img \<Rightarrow> string \<Rightarrow> string option \<Rightarrow> int \<Rightarrow> 's world \<Rightarrow>
     (error + AbsoluteEvaluationResult option list) \<times> 's world" where
  "absolute_evaluate llm L img design_principle_prompt system_prompt_template num_return w =
     (case
        and_then (from_template L (or_default system_prompt_template absolute_DEFAULT_SYSTEM_PROMPT))
          (\<lambda>system_prompt. and_then (from_messages L system_prompt absolute_user_prompt)
          (\<lambda>prompt. and_then (structured_output llm AbsoluteEvaluationResult_schema)
          (\<lambda>sch. and_then (image_to_base64 L img)
          (\<lambda>b64. Inr (prompt, sch,
                 [''design_principle'' \<mapsto> design_principle_prompt, ''base64_image'' \<mapsto> b64])))))
      of
        Inl e \<Rightarrow> (Inl e, w)
      | Inr (prompt, sch, input_data) \<Rightarrow>
          chain_batch L llm prompt sch (AbsoluteEvaluationResult_validate L)
            (replicate (nat num_return) input_data) w)"

text \<open>\<open>GPTGraphicDesignAbsoluteEvaluator.__call__\<close>.\<close>

definition absolute_call ::
    "'s chat_model \<Rightarrow> 'img libs \<Rightarrow> 'img \<Rightarrow> string \<Rightarrow> int \<Rightarrow> 's world \<Rightarrow>
     (error + AbsoluteEvaluationResult option list) \<times> 's world" where
  "absolute_call llm L img design_principle num_return w =
     (case getitem DESIGN_PRINCIPLES design_principle of
        Inl e \<Rightarrow> (Inl e, w)
      | Inr text \<Rightarrow>
          absolute_evaluate llm L img text (Some absolute_DEFAULT_SYSTEM_PROMPT) num_return w)"

section \<open>The relative evaluator (\<^verbatim>\<open>gpt_evaluators/relative_evaluator.py\<close>)\<close>

definition relative_DEFAULT_SYSTEM_PROMPT :: string where
  \<open>relative_DEFAULT_SYSTEM_PROMPT =
     ''You are an autonomous AI Assistant who aids designers by providing insightful, objective, and constructive\<newline>'' @
     ''critiques of graphic design projects. \<newline>'' @
     ''\<newline>'' @
     ''Your goals are: "Deliver comprehensive and unbiased evaluations of graphic designs based on the following design principles."\<newline>'' @
     ''\<newline>'' @
     ''{design_principle}\<newline>'' @
     ''\<newline>'' @
     ''If the output is too long, it will be truncated. Only respond in JSON format, no other information. Example of output for a better graphic design (a):\<newline>'' @
     ''\<newline>'' @
     ''{{\<newline>'' @
     ''    "better_design": "a",\<newline>'' @
     ''    "explanation": "(Please concisely explain the reason of choice.)"\<newline>'' @
     ''}}\<newline>'' @
     ''\<newline>'' @
     ''If both images are the same quality, answer\<newline>'' @
     ''\<newline>'' @
     ''{{\<newline>'' @
     ''    "better_design": "both", \<newline>'' @
     ''    "explanation": "(Please concisely explain the reason of choice.)"\<newline>'' @
     ''}}\<newline>''\<close>

definition relative_USER_PROMPT :: string where
  \<open>relative_USER_PROMPT =
     ''Which of the following graphic designs has better quality regarding the above-described points? (a)[image] (b)[image]\<newline>''\<close>

definition relative_user_prompt :: "block list" where
  "relative_user_prompt =
     [Text_block relative_USER_PROMPT, Image_url_block ''data:image/png;base64,{base64_image}'']"

text \<open>
  The body of \<open>evaluate\<close> reads the name \<open>image\<close>. A name is looked up among the
  function's parameters and local variables, then among the module's globals (the
  imports, constants and classes of the file); what is found is an image or some other
  object. Python's builtins, searched last, have no name \<open>image\<close>.
\<close>

datatype 'img pyobj = Image_obj 'img | Other_obj

definition relative_evaluate_locals :: "'img \<Rightarrow> 'img \<Rightarrow> (string \<times> 'img pyobj) list" where
  "relative_evaluate_locals image_a image_b =
     [(''self'', Other_obj), (''image_a'', Image_obj image_a), (''image_b'', Image_obj image_b),
      (''design_principle_prompt'', Other_obj), (''system_prompt_template'', Other_obj),
      (''num_return'', Other_obj), (''system_prompt'', Other_obj), (''user_prompt'', Other_obj),
      (''prompt'', Other_obj), (''chain'', Other_obj)]"

definition relative_module_globals :: "(string \<times> 'img pyobj) list" where
  "relative_module_globals =
     map (\<lambda>n. (n, Other_obj))
       [''annotations'', ''base64'', ''io'', ''dataclass'', ''TYPE_CHECKING'', ''Final'', ''List'',
        ''Literal'', ''Optional'', ''cast'', ''ChatPromptTemplate'',
        ''SystemMessagePromptTemplate'', ''BaseChatModel'', ''Image'', ''BaseModel'', ''Field'',
        ''image_to_base64'', ''DESIGN_PRINCIPLES'', ''DEFAULT_SYSTEM_PROMPT'', ''USER_PROMPT'',
        ''RelativeEvaluationResult'', ''GPTGraphicDesignRelativeEvaluator'']"

definition load_name :: "(string \<times> 'img pyobj) list \<Rightarrow> string \<Rightarrow> error + 'img pyobj" where
  "load_name scope name =
     (case map_of scope name of None \<Rightarrow> Inl (NameError name) | Some v \<Rightarrow> Inr v)"

text \<open>\<open>image_to_base64(x)\<close> on an object that need not be an image.\<close>

definition image_to_base64_obj :: "'img libs \<Rightarrow> 'img pyobj \<Rightarrow> error + string" where
  "image_to_base64_obj L x =
     (case x of Image_obj img \<Rightarrow> image_to_base64 L img | Other_obj \<Rightarrow> Inl (AttributeError ''save''))"

text \<open>\<open>GPTGraphicDesignRelativeEvaluator.evaluate\<close>.\<close>

definition relative_evaluate ::
    "'s chat_model \<Rightarrow> 'img libs \<Rightarrow> 'img \<Rightarrow> 'img \<Rightarrow> string \<Rightarrow> string option \<Rightarrow> int \<Rightarrow> 's world \<Rightarrow>
     (error + RelativeEvaluationResult option list) \<times> 's world" where
  "relative_evaluate llm L image_a image_b design_principle_prompt system_prompt_template
       num_return w =
     (case
        and_then (from_template L (or_default system_prompt_template relative_DEFAULT_SYSTEM_PROMPT))
          (\<lambda>system_prompt. and_then (from_messages L system_prompt relative_user_prompt)
          (\<lambda>prompt. and_then (structured_output llm RelativeEvaluationResult_schema)
          (\<lambda>sch. and_then
                 (load_name (relative_evaluate_locals image_a image_b @ relative_module_globals)
                    ''image'')
          (\<lambda>x. and_then (image_to_base64_obj L x)
          (\<lambda>b64. Inr (prompt, sch,
                 [''design_principle'' \<mapsto> design_principle_prompt, ''base64_image'' \<mapsto> b64]))))))
      of
        Inl e \<Rightarrow> (Inl e, w)
      | Inr (prompt, sch, input_data) \<Rightarrow>
          chain_batch L llm prompt sch (RelativeEvaluationResult_validate L)
            (replicate (nat num_return) input_data) w)"

text \<open>\<open>GPTGraphicDesignRelativeEvaluator.__call__\<close>.\<close>

definition relative_call ::
    "'s chat_model \<Rightarrow> 'img libs \<Rightarrow> 'img \<Rightarrow> 'img \<Rightarrow> string \<Rightarrow> int \<Rightarrow> 's world \<Rightarrow>
     (error + RelativeEvaluationResult option list) \<times> 's world" where
  "relative_call llm L image_a image_b design_principle num_return w =
     (case getitem DESIGN_PRINCIPLES design_principle of
        Inl e \<Rightarrow> (Inl e, w)
      | Inr text \<Rightarrow>
          relative_evaluate llm L image_a image_b text (Some relative_DEFAULT_SYSTEM_PROMPT)
            num_return w)"

section \<open>Auxiliary notions\<close>

text \<open>The replacement fields of a parsed template, in order (its input variables).\<close>

fun input_variables :: "segment list \<Rightarrow> string list" where
  "input_variables [] = []"
| "input_variables (Lit c # s) = input_variables s"
| "input_variables (Var v # s) = v # input_variables s"

text \<open>A template text parses, all its fields are plain names, and these are \<open>vs\<close>.\<close>

definition parses_with :: "string \<Rightarrow> string list \<Rightarrow> bool" where
  "parses_with t vs =
     (case scan_template t of
        Segments s \<Rightarrow> input_variables s = vs
      | Bad e \<Rightarrow> False
      | Exotic \<Rightarrow> False)"

text \<open>The image references among the content blocks of a user message.\<close>

fun image_urls :: "block list \<Rightarrow> string list" where
  "image_urls [] = []"
| "image_urls (Text_block t # bs) = image_urls bs"
| "image_urls (Image_url_block u # bs) = u # image_urls bs"

text \<open>
  The request the absolute evaluator composes from the formatted system message and the
  PNG bytes of the image: the schema it binds, the system message, and a user message of
  the fixed text and one image reference, a data URL of the base64 payload.
\<close>

definition absolute_request :: "string \<Rightarrow> byte list \<Rightarrow> request" where
  "absolute_request sys png =
     \<lparr>output_schema = AbsoluteEvaluationResult_schema,
      messages =
        [System sys,
         User [Text_block absolute_USER_PROMPT,
               Image_url_block (''data:image/png;base64,'' @ b64encode png)]]\<rparr>"

subsection \<open>Stand-ins for the collaborators, for worked instances\<close>

text \<open>
  A bitmap with its pixel buffer; a stand-in serialiser that writes the PNG signature
  followed by the buffer; a schema library that converts nothing; a prompt library that
  refuses every field that is not a plain name.
\<close>

record bitmap =
  width :: nat
  height :: nat
  pixels :: "byte list"

definition png_signature :: "byte list" where
  "png_signature = [0x89, 0x50, 0x4E, 0x47, 0x0D, 0x0A, 0x1A, 0x0A]"

definition example_libs :: "bitmap libs" where
  "example_libs =
     \<lparr>png_save = (\<lambda>b. Inr (png_signature @ pixels b)),
      lax_int = (\<lambda>j. None),
      lax_str = (\<lambda>j. None),
      fstring_check = (\<lambda>t. Some (ValueError ''unsupported replacement field'')),
      fstring_format = (\<lambda>t vars. Inl (ValueError ''unsupported replacement field''))\<rparr>"

text \<open>The same, for an image library that cannot write the bitmap as PNG.\<close>

definition unencodable_libs :: "bitmap libs" where
  "unencodable_libs = example_libs\<lparr>png_save := (\<lambda>b. Inl ''cannot write mode F as PNG'')\<rparr>"

definition black_pixel :: bitmap where
  "black_pixel = \<lparr>width = 1, height = 1, pixels = [0, 0, 0]\<rparr>"

definition white_pixel :: bitmap where
  "white_pixel = \<lparr>width = 1, height = 1, pixels = [255, 255, 255]\<rparr>"

text \<open>
  A mocked model that accepts every schema and always gives the same reply; it binds
  the schema by tool calling, so a reply with no readable object raises nothing.
\<close>

definition constant_model :: "reply \<Rightarrow> unit chat_model" where
  "constant_model r =
     \<lparr>with_structured_output = (\<lambda>sch. None),
      generate = (\<lambda>q s. (Inr r, s)),
      unreadable = (\<lambda>raw. None)\<rparr>"

text \<open>A mocked model that gives the replies of a script, one per request.\<close>

definition scripted_model :: "(reply list) chat_model" where
  "scripted_model =
     \<lparr>with_structured_output = (\<lambda>sch. None),
      generate = (\<lambda>q s. case s of [] \<Rightarrow> (Inl ''no reply left'', []) | r # rs \<Rightarrow> (Inr r, rs)),
      unreadable = (\<lambda>raw. None)\<rparr>"

definition seven_ok :: reply where
  "seven_ok = Object [''score'' \<mapsto> JInt 7, ''explanation'' \<mapsto> JStr ''ok'']"

definition ninety_nine :: reply where
  "ninety_nine = Object [''score'' \<mapsto> JInt 99, ''explanation'' \<mapsto> JStr ''splendid'']"

definition start :: "unit world" where
  "start = \<lparr>model_state = (), sent = []\<rparr>"

text \<open>The absolute result with the fields of a single-evaluator result.\<close>

definition as_absolute :: "EvaluationResult \<Rightarrow> AbsoluteEvaluationResult" where
  "as_absolute r =
     \<lparr>AbsoluteEvaluationResult.score = EvaluationResult.score r,
      explanation = EvaluationResult.explanation r\<rparr>"

section \<open>Basic facts\<close>

lemma and_then_Inr [simp]: "and_then (Inr a) f = f a"
  by (simp add: and_then_def)

lemma and_then_Inl [simp]: "and_then (Inl e) f = Inl e"
  by (simp add: and_then_def)

lemma and_then_eq_Inr: "and_then m f = Inr b \<longleftrightarrow> (\<exists>a. m = Inr a \<and> f a = Inr b)"
  by (cases m) simp_all

lemma traverse_Inr_iff: "traverse f xs = Inr ys \<longleftrightarrow> map f xs = map Inr ys"
proof (induction xs arbitrary: ys)
  case Nil
  show ?case by auto
next
  case (Cons x xs)
  show ?case
  proof (cases "f x")
    case (Inl e)
    then show ?thesis by (cases ys) auto
  next
    case (Inr y)
    show ?thesis
    proof (cases "traverse f xs")
      case (Inl e)
      with Cons.IH have "\<And>zs. map f xs \<noteq> map Inr zs" by auto
      with Inl Inr show ?thesis by (cases ys) auto
    next
      case r: (Inr zs)
      with Cons.IH[of zs] have m: "map f xs = map Inr zs" by simp
      from r Inr m show ?thesis
        by (cases ys) (auto simp: inj_map_eq_map[OF inj_Inr])
    qed
  qed
qed

lemma traverse_map_Inr: "traverse received (map Inr rs) = Inr rs"
  by (simp add: traverse_Inr_iff received_def)

lemma traverse_first_failure:
  "k < length xs \<Longrightarrow> f (xs ! k) = Inl e \<Longrightarrow> \<exists>e' j. j < length xs \<and> f (xs ! j) = Inl e' \<and> traverse f xs = Inl e'"
proof (induction xs arbitrary: k)
  case Nil
  then show ?case by simp
next
  case (Cons x xs)
  show ?case
  proof (cases "f x")
    case (Inl e0)
    then have "f ((x # xs) ! 0) = Inl e0 \<and> traverse f (x # xs) = Inl e0" by simp
    then show ?thesis by blast
  next
    case (Inr y)
    with Cons.prems obtain k' where k: "k = Suc k'" by (cases k) auto
    with Cons.prems have "k' < length xs" "f (xs ! k') = Inl e" by auto
    from Cons.IH[OF this] obtain e' j where
      j: "j < length xs" "f (xs ! j) = Inl e'" "traverse f xs = Inl e'" by blast
    then have "Suc j < length (x # xs) \<and> f ((x # xs) ! Suc j) = Inl e' \<and> traverse f (x # xs) = Inl e'"
      using Inr by simp
    then show ?thesis by blast
  qed
qed

lemma sent_send: "sent (snd (send llm q w)) = sent w @ [q]"
  by (simp add: send_def split: prod.splits)

lemma send_all_sent: "sent (snd (send_all llm qs w)) = sent w @ qs"
proof (induction qs arbitrary: w)
  case Nil
  show ?case by simp
next
  case (Cons q qs)
  obtain out w1 where s1: "send llm q w = (out, w1)" by (cases "send llm q w")
  obtain outs w2 where s2: "send_all llm qs w1 = (outs, w2)" by (cases "send_all llm qs w1")
  from sent_send[of llm q w] s1 have "sent w1 = sent w @ [q]" by simp
  with Cons.IH[of w1] s1 s2 show ?case by simp
qed

lemma send_all_length: "length (fst (send_all llm qs w)) = length qs"
proof (induction qs arbitrary: w)
  case Nil
  show ?case by simp
next
  case (Cons q qs)
  obtain out w1 where s1: "send llm q w = (out, w1)" by (cases "send llm q w")
  obtain outs w2 where s2: "send_all llm qs w1 = (outs, w2)" by (cases "send_all llm qs w1")
  with Cons.IH[of w1] s1 show ?case by simp
qed

lemma send_constant:
  "send (constant_model r) q w = (Inr r, w\<lparr>sent := sent w @ [q]\<rparr>)"
  by (simp add: send_def constant_model_def)

lemma send_all_constant:
  "send_all (constant_model r) (replicate k q) w =
     (replicate k (Inr r), w\<lparr>sent := sent w @ replicate k q\<rparr>)"
proof (induction k arbitrary: w)
  case 0
  show ?case by simp
next
  case (Suc k)
  show ?case
    by (simp add: Suc.IH send_constant replicate_app_Cons_same)
qed

lemma send_all_scripted:
  "length qs \<le> length script \<Longrightarrow>
   send_all scripted_model qs \<lparr>model_state = script, sent = prior\<rparr> =
     (map Inr (take (length qs) script),
      \<lparr>model_state = drop (length qs) script, sent = prior @ qs\<rparr>)"
proof (induction qs arbitrary: script prior)
  case Nil
  show ?case by simp
next
  case (Cons q qs)
  then obtain r rs where s: "script = r # rs" by (cases script) auto
  with Cons.prems have "length qs \<le> length rs" by simp
  from Cons.IH[OF this] show ?case
    by (simp add: s send_def scripted_model_def)
qed

lemma format_segments_ok:
  "set (input_variables s) \<subseteq> dom vars \<Longrightarrow> \<exists>r. format_segments s vars = Inr r"
proof (induction s)
  case Nil
  show ?case by simp
next
  case (Cons x s)
  then show ?case by (cases x) auto
qed

lemma from_template_parses:
  "parses_with t vs \<Longrightarrow> \<exists>s. from_template L t = Inr (Plain s) \<and> input_variables s = vs"
  by (auto simp: parses_with_def from_template_def split: scan.splits)

lemma two_fields_failure: "two_fields a b mk = Inl e \<Longrightarrow> \<exists>is. e = ValidationError is"
  by (auto simp: two_fields_def split: sum.splits)

lemma and_then_unit: "and_then m (\<lambda>r. Inr r) = m"
  by (cases m) simp_all

lemma format_lits:
  "format_segments (map Lit xs @ s) vars = and_then (format_segments s vars) (\<lambda>r. Inr (xs @ r))"
proof (induction xs)
  case Nil
  show ?case by (simp add: and_then_unit)
next
  case (Cons x xs)
  then show ?case by (cases "format_segments s vars") simp_all
qed

section \<open>The result schemas\<close>

text \<open>
  Claim C3. Constructing an absolute evaluation result (\<open>EvaluationResult\<close> or
  \<open>AbsoluteEvaluationResult\<close>) from an integer score \<open>s\<close> and an explanation string
  succeeds if and only if \<open>1 \<le> s \<le> 10\<close>. On success the result holds the score and the
  explanation as given; otherwise a validation error on the field \<open>score\<close> is raised.
\<close>

theorem result_construction_score_range:
  "((\<exists>r. EvaluationResult s e = Inr r) \<longleftrightarrow> 1 \<le> s \<and> s \<le> 10) \<and>
   ((\<exists>r. AbsoluteEvaluationResult s e = Inr r) \<longleftrightarrow> 1 \<le> s \<and> s \<le> 10) \<and>
   EvaluationResult s e =
     (if 1 \<le> s \<and> s \<le> 10 then Inr \<lparr>EvaluationResult.score = s, explanation = e\<rparr>
      else Inl (ValidationError [(''score'', if s < 1 then Greater_than_equal else Less_than_equal)])) \<and>
   AbsoluteEvaluationResult s e =
     (if 1 \<le> s \<and> s \<le> 10 then Inr \<lparr>AbsoluteEvaluationResult.score = s, explanation = e\<rparr>
      else Inl (ValidationError [(''score'', if s < 1 then Greater_than_equal else Less_than_equal)]))"
  by (auto simp: EvaluationResult_def AbsoluteEvaluationResult_def two_fields_def ge_le_def)

text \<open>The boundaries: 0 and 11 fail, 1 and 10 succeed, for both result classes.\<close>

theorem result_construction_score_range_witness:
  "(\<exists>is. AbsoluteEvaluationResult 0 ''e'' = Inl (ValidationError is)) \<and>
   (\<exists>is. AbsoluteEvaluationResult 11 ''e'' = Inl (ValidationError is)) \<and>
   (\<exists>r. AbsoluteEvaluationResult 1 ''e'' = Inr r) \<and>
   (\<exists>r. AbsoluteEvaluationResult 10 ''e'' = Inr r) \<and>
   (\<exists>is. EvaluationResult 0 ''e'' = Inl (ValidationError is)) \<and>
   (\<exists>is. EvaluationResult 11 ''e'' = Inl (ValidationError is)) \<and>
   (\<exists>r. EvaluationResult 1 ''e'' = Inr r) \<and>
   (\<exists>r. EvaluationResult 10 ''e'' = Inr r)"
  using result_construction_score_range[of 0 "''e''"] result_construction_score_range[of 11 "''e''"]
    result_construction_score_range[of 1 "''e''"] result_construction_score_range[of 10 "''e''"]
  by simp

lemma set_better_design_tags:
  "set better_design_tags = {''none'', ''small'', ''medium'', ''large'', ''both''}"
  by (simp add: better_design_tags_def)

text \<open>
  Claim C4. Constructing a \<open>RelativeEvaluationResult\<close> succeeds for a preference value if
  and only if the value is one of the five declared tags \<open>none\<close>, \<open>small\<close>, \<open>medium\<close>,
  \<open>large\<close>, \<open>both\<close>; any other string is a validation error on \<open>better_design\<close>.
\<close>

theorem relative_result_construction_tags:
  "((\<exists>r. RelativeEvaluationResult b e = Inr r) \<longleftrightarrow>
      b \<in> {''none'', ''small'', ''medium'', ''large'', ''both''}) \<and>
   RelativeEvaluationResult b e =
     (if b \<in> {''none'', ''small'', ''medium'', ''large'', ''both''}
      then Inr \<lparr>better_design = b, explanation = e\<rparr>
      else Inl (ValidationError [(''better_design'', Literal_error)]))"
  by (simp add: RelativeEvaluationResult_def two_fields_def one_of_def set_better_design_tags del: insert_iff)

text \<open>The strings \<open>a\<close> and \<open>b\<close> are refused; \<open>both\<close> is accepted.\<close>

theorem relative_result_construction_tags_witness:
  "RelativeEvaluationResult ''a'' ''e'' = Inl (ValidationError [(''better_design'', Literal_error)]) \<and>
   RelativeEvaluationResult ''b'' ''e'' = Inl (ValidationError [(''better_design'', Literal_error)]) \<and>
   RelativeEvaluationResult ''both'' ''e'' = Inr \<lparr>better_design = ''both'', explanation = ''e''\<rparr>"
  using relative_result_construction_tags[of "''a''" "''e''"]
    relative_result_construction_tags[of "''b''" "''e''"]
    relative_result_construction_tags[of "''both''" "''e''"]
  by simp

section \<open>The prompt catalog\<close>

text \<open>
  Claim C6. For each of the tags \<open>alignment\<close>, \<open>overlap\<close> and \<open>whitespace\<close> the lookup
  in \<open>DESIGN_PRINCIPLES\<close> returns the tag's instruction text, which is not empty; the
  lookup of any other tag raises \<open>KeyError\<close>.
\<close>

theorem design_principles_lookup:
  "getitem DESIGN_PRINCIPLES k =
     (if k = ''alignment'' then Inr DEFAULT_ALIGNMENT_DESIGN_PRINCIPLE
      else if k = ''overlap'' then Inr DEFAULT_OVERLAP_DESIGN_PRINCIPLE
      else if k = ''whitespace'' then Inr DEFAULT_WHITE_SPACE_DESIGN_PRINCIPLE
      else Inl (KeyError k)) \<and>
   DEFAULT_ALIGNMENT_DESIGN_PRINCIPLE \<noteq> [] \<and>
   DEFAULT_OVERLAP_DESIGN_PRINCIPLE \<noteq> [] \<and>
   DEFAULT_WHITE_SPACE_DESIGN_PRINCIPLE \<noteq> []"
  by (simp add: getitem_def DESIGN_PRINCIPLES_def DEFAULT_ALIGNMENT_DESIGN_PRINCIPLE_def
      DEFAULT_OVERLAP_DESIGN_PRINCIPLE_def DEFAULT_WHITE_SPACE_DESIGN_PRINCIPLE_def)

theorem design_principles_lookup_witness:
  "getitem DESIGN_PRINCIPLES ''overlap'' = Inr DEFAULT_OVERLAP_DESIGN_PRINCIPLE \<and>
   getitem DESIGN_PRINCIPLES ''contrast'' = Inl (KeyError ''contrast'')"
  using design_principles_lookup[of "''overlap''"] design_principles_lookup[of "''contrast''"]
  by simp

section \<open>Prompts and chains\<close>

lemma absolute_default_parses:
  "parses_with absolute_DEFAULT_SYSTEM_PROMPT [''design_principle'']"
  unfolding parses_with_def absolute_DEFAULT_SYSTEM_PROMPT_def by code_simp

lemma relative_default_parses:
  "parses_with relative_DEFAULT_SYSTEM_PROMPT [''design_principle'']"
  unfolding parses_with_def relative_DEFAULT_SYSTEM_PROMPT_def by code_simp

lemmas scan_simps = parses_with_def scan_cons_def ident_char_def digit_char_def

lemma relative_user_parses: "parses_with relative_USER_PROMPT []"
  by (simp add: relative_USER_PROMPT_def scan_simps)

lemma image_url_parses: "parses_with ''data:image/png;base64,{base64_image}'' [''base64_image'']"
  by (simp add: scan_simps)

lemma from_messages_ok:
  assumes "parses_with text []"
  shows "\<exists>s1 s2. from_messages L sp [Text_block text, Image_url_block ''data:image/png;base64,{base64_image}''] =
           Inr \<lparr>system_template = sp,
                user_templates = [Text_template (Plain s1), Image_url_template (Plain s2)]\<rparr> \<and>
           input_variables s1 = [] \<and> input_variables s2 = [''base64_image'']"
proof -
  from from_template_parses[OF assms, of L] obtain s1 where
    s1: "from_template L text = Inr (Plain s1)" "input_variables s1 = []" by blast
  from from_template_parses[OF image_url_parses, of L] obtain s2 where
    s2: "from_template L ''data:image/png;base64,{base64_image}'' = Inr (Plain s2)"
        "input_variables s2 = [''base64_image'']" by blast
  from s1 s2 show ?thesis
    by (simp add: from_messages_def block_from_template_def)
qed

lemma or_default_None [simp]: "or_default None d = d"
  by (simp add: or_default_def)

lemma or_default_same [simp]: "or_default (Some d) d = d"
  by (simp add: or_default_def)

lemma map_received_Inr: "map received outs = map Inr reps \<Longrightarrow> outs = map Inr reps"
proof (induction outs arbitrary: reps)
  case Nil
  then show ?case by simp
next
  case (Cons out outs)
  then obtain r rs where reps: "reps = r # rs" by (cases reps) auto
  with Cons.prems have "received out = Inr r" "map received outs = map Inr rs" by auto
  moreover from this(1) have "out = Inr r" by (cases out) (auto simp: received_def)
  ultimately show ?case using Cons.IH[of rs] reps by simp
qed

lemma scan_absolute_user:
  "scan_template absolute_USER_PROMPT = Segments (map Lit absolute_USER_PROMPT)"
  by (simp add: absolute_USER_PROMPT_def scan_cons_def)

lemma scan_image_url:
  "scan_template ''data:image/png;base64,{base64_image}'' =
     Segments (map Lit ''data:image/png;base64,'' @ [Var ''base64_image''])"
  by (simp add: scan_cons_def ident_char_def digit_char_def)

lemma from_template_Segments: "scan_template t = Segments s \<Longrightarrow> from_template L t = Inr (Plain s)"
  by (simp add: from_template_def)

lemma from_messages_two_blocks:
  assumes "from_template L a = Inr x" and "from_template L b = Inr y"
  shows "from_messages L sp [Text_block a, Image_url_block b] =
     Inr \<lparr>system_template = sp, user_templates = [Text_template x, Image_url_template y]\<rparr>"
  by (simp add: from_messages_def block_from_template_def assms)

lemma absolute_from_messages:
  "from_messages L sp absolute_user_prompt =
     Inr \<lparr>system_template = sp,
          user_templates =
            [Text_template (Plain (map Lit absolute_USER_PROMPT)),
             Image_url_template (Plain (map Lit ''data:image/png;base64,'' @ [Var ''base64_image'']))]\<rparr>"
  unfolding absolute_user_prompt_def
  by (rule from_messages_two_blocks)
     (rule from_template_Segments, rule scan_absolute_user, rule from_template_Segments, rule scan_image_url)

lemma format_messages_two_blocks:
  assumes "format_template L sp vars = Inr sys"
    and "format_segments a vars = Inr x"
    and "format_segments b vars = Inr y"
  shows "format_messages L
           \<lparr>system_template = sp,
            user_templates = [Text_template (Plain a), Image_url_template (Plain b)]\<rparr> vars =
         Inr [System sys, User [Text_block x, Image_url_block y]]"
  by (simp add: format_messages_def format_block_def assms)

lemma absolute_format_messages:
  assumes "format_template L sp vars = Inr sys" and "vars ''base64_image'' = Some b"
  shows "format_messages L
           \<lparr>system_template = sp,
            user_templates =
              [Text_template (Plain (map Lit absolute_USER_PROMPT)),
               Image_url_template (Plain (map Lit ''data:image/png;base64,'' @ [Var ''base64_image'']))]\<rparr>
           vars =
         Inr [System sys,
              User [Text_block absolute_USER_PROMPT,
                    Image_url_block (''data:image/png;base64,'' @ b)]]"
proof -
  have "format_segments (map Lit absolute_USER_PROMPT @ []) vars = Inr absolute_USER_PROMPT"
    unfolding format_lits by simp
  then have u: "format_segments (map Lit absolute_USER_PROMPT) vars = Inr absolute_USER_PROMPT"
    by simp
  have i: "format_segments (map Lit ''data:image/png;base64,'' @ [Var ''base64_image'']) vars =
      Inr (''data:image/png;base64,'' @ b)"
    unfolding format_lits by (simp add: assms(2))
  from assms(1) u i show ?thesis by (rule format_messages_two_blocks)
qed

lemma template_formats:
  assumes "parses_with tpl vs" and "set vs \<subseteq> {''design_principle'', ''base64_image''}"
  shows "\<exists>s sys. scan_template tpl = Segments s \<and>
           format_segments s [''design_principle'' \<mapsto> p, ''base64_image'' \<mapsto> b] = Inr sys"
proof -
  from assms(1) obtain s where s: "scan_template tpl = Segments s" "input_variables s = vs"
    by (auto simp: parses_with_def split: scan.splits)
  define input where "input = [''design_principle'' \<mapsto> p, ''base64_image'' \<mapsto> b]"
  have "dom input = {''design_principle'', ''base64_image''}"
    by (auto simp: input_def)
  with s(2) assms(2) have "\<exists>sys. format_segments s input = Inr sys"
    by (intro format_segments_ok) simp
  with s(1) show ?thesis unfolding input_def by blast
qed

section \<open>The absolute evaluator\<close>

lemma structured_output_eq_Inr:
  "structured_output llm sch = Inr sch' \<longleftrightarrow> with_structured_output llm sch = None \<and> sch' = sch"
  by (auto simp: structured_output_def split: option.splits)

lemma chain_batch_Nil: "chain_batch L llm prompt sch validate [] w = (Inr [], w)"
  by (simp add: chain_batch_def)

lemma chain_batch_replicate:
  assumes "format_messages L prompt input = Inr ms"
  shows "chain_batch L llm prompt sch validate (replicate k input) w =
     (case send_all llm (replicate k \<lparr>output_schema = sch, messages = ms\<rparr>) w of
        (outs, w') \<Rightarrow>
          (and_then (traverse received outs) (traverse (structured llm validate)), w'))"
proof -
  have "traverse (format_messages L prompt) (replicate k input) = Inr (replicate k ms)"
    by (simp add: traverse_Inr_iff assms)
  then show ?thesis unfolding chain_batch_def by simp
qed

lemma chain_batch_format_failure:
  assumes "format_messages L prompt input = Inl e" and "0 < k"
  shows "chain_batch L llm prompt sch validate (replicate k input) w = (Inl e, w)"
proof -
  from assms(2) obtain k' where "k = Suc k'" by (cases k) auto
  with assms(1) show ?thesis by (simp add: chain_batch_def)
qed

lemma batch_result_Inr:
  assumes "(case send_all llm qs w of
              (outs, w1) \<Rightarrow>
                (and_then (traverse received outs) (traverse (structured llm validate)), w1)) =
           (Inr rs, w')"
  shows "\<exists>replies. send_all llm qs w = (map Inr replies, w') \<and>
           map (structured llm validate) replies = map Inr rs \<and>
           length replies = length qs \<and> length rs = length qs"
proof -
  obtain outs w1 where s: "send_all llm qs w = (outs, w1)" by (cases "send_all llm qs w")
  with assms have r: "and_then (traverse received outs) (traverse (structured llm validate)) = Inr rs"
    and w: "w1 = w'" by auto
  from r obtain replies where replies: "traverse received outs = Inr replies"
    "traverse (structured llm validate) replies = Inr rs"
    by (auto simp: and_then_eq_Inr)
  from replies(1) have outs: "outs = map Inr replies"
    by (simp add: traverse_Inr_iff map_received_Inr)
  from replies(2) have m: "map (structured llm validate) replies = map Inr rs"
    by (simp add: traverse_Inr_iff)
  from send_all_length[of llm qs w] s outs have l: "length replies = length qs" by simp
  from m have "length replies = length rs" by (metis length_map)
  with s outs w m l show ?thesis by simp
qed

lemma objects_validated:
  fixes validate :: "(string \<rightharpoonup> json) \<Rightarrow> error + 'r"
  shows "map validate objs = map Inr rs \<Longrightarrow>
   traverse (structured llm validate) (map Object objs) = Inr (map Some rs)"
proof (induction objs arbitrary: rs)
  case Nil
  then show ?case by simp
next
  case (Cons obj objs)
  then obtain r rs' where rs: "rs = r # rs'" by (cases rs) auto
  with Cons.prems have "validate obj = Inr r" "map validate objs = map Inr rs'" by auto
  with Cons.IH[of rs'] rs show ?case by (simp add: structured_def)
qed

lemma reply_entries:
  fixes validate :: "(string \<rightharpoonup> json) \<Rightarrow> error + 'r"
  assumes "map (structured llm validate) replies = map Inr rs" and "i < length replies"
  shows "case replies ! i of
           Object obj \<Rightarrow> \<exists>r. rs ! i = Some r \<and> validate obj = Inr r
         | Malformed raw \<Rightarrow> rs ! i = None \<and> unreadable llm raw = None"
proof -
  from assms(1) have len: "length replies = length rs" by (metis length_map)
  from assms(1) have "map (structured llm validate) replies ! i = map Inr rs ! i" by simp
  with assms(2) len have e: "structured llm validate (replies ! i) = Inr (rs ! i)" by simp
  show ?thesis
  proof (cases "replies ! i")
    case (Object obj)
    with e show ?thesis by (auto simp: structured_def and_then_eq_Inr)
  next
    case (Malformed raw)
    with e show ?thesis by (auto simp: structured_def split: option.splits)
  qed
qed

lemma batch_invalid_reply:
  fixes validate :: "(string \<rightharpoonup> json) \<Rightarrow> error + 'r"
  assumes out: "fst (send_all llm qs w) = map Inr replies"
    and k: "k < length replies" "replies ! k = Object obj" "validate obj = Inl e"
    and vf: "\<And>obj e. validate obj = Inl e \<Longrightarrow> \<exists>is. e = ValidationError is"
  shows "\<exists>e'. fst (case send_all llm qs w of
                   (outs, w') \<Rightarrow>
                     (and_then (traverse received outs) (traverse (structured llm validate)), w')) =
               Inl e' \<and>
             ((\<exists>is. e' = ValidationError is) \<or>
              (\<exists>j raw. j < length replies \<and> replies ! j = Malformed raw \<and>
                       unreadable llm raw = Some e'))"
proof -
  obtain outs w1 where s: "send_all llm qs w = (outs, w1)" by (cases "send_all llm qs w")
  with out have outs: "outs = map Inr replies" by simp
  from k have "structured llm validate (replies ! k) = Inl e" by (simp add: structured_def)
  from traverse_first_failure[where f = "structured llm validate", OF k(1) this]
  obtain e' j where j: "j < length replies" "structured llm validate (replies ! j) = Inl e'"
    and t: "traverse (structured llm validate) replies = Inl e'" by blast
  have "(\<exists>is. e' = ValidationError is) \<or>
        (\<exists>j raw. j < length replies \<and> replies ! j = Malformed raw \<and> unreadable llm raw = Some e')"
  proof (cases "replies ! j")
    case (Object obj')
    with j(2) have "validate obj' = Inl e'"
      by (cases "validate obj'") (simp_all add: structured_def)
    from vf[OF this] show ?thesis by blast
  next
    case (Malformed raw)
    with j(2) have "unreadable llm raw = Some e'"
      by (simp add: structured_def split: option.splits)
    with j(1) Malformed show ?thesis by blast
  qed
  moreover have "fst (case send_all llm qs w of
                   (outs, w') \<Rightarrow>
                     (and_then (traverse received outs) (traverse (structured llm validate)), w')) =
               Inl e'"
    by (simp add: s outs traverse_map_Inr t)
  ultimately show ?thesis by blast
qed

lemma absolute_evaluate_chain:
  assumes "from_template L (or_default t absolute_DEFAULT_SYSTEM_PROMPT) = Inr sp"
    and "with_structured_output llm AbsoluteEvaluationResult_schema = None"
    and "png_save L img = Inr png"
  shows "absolute_evaluate llm L img p t n w =
     chain_batch L llm
       \<lparr>system_template = sp,
        user_templates =
          [Text_template (Plain (map Lit absolute_USER_PROMPT)),
           Image_url_template (Plain (map Lit ''data:image/png;base64,'' @ [Var ''base64_image'']))]\<rparr>
       AbsoluteEvaluationResult_schema (AbsoluteEvaluationResult_validate L)
       (replicate (nat n) [''design_principle'' \<mapsto> p, ''base64_image'' \<mapsto> b64encode png]) w"
proof -
  define input where "input = [''design_principle'' \<mapsto> p, ''base64_image'' \<mapsto> b64encode png]"
  define prompt where "prompt = \<lparr>system_template = sp,
        user_templates =
          [Text_template (Plain (map Lit absolute_USER_PROMPT)),
           Image_url_template (Plain (map Lit ''data:image/png;base64,'' @ [Var ''base64_image'']))]\<rparr>"
  have b64: "image_to_base64 L img = Inr (b64encode png)"
    by (simp add: image_to_base64_def assms(3))
  have so: "structured_output llm AbsoluteEvaluationResult_schema = Inr AbsoluteEvaluationResult_schema"
    by (simp add: structured_output_def assms(2))
  show ?thesis
    unfolding absolute_evaluate_def assms(1) and_then_Inr absolute_from_messages so b64
      prompt_def[symmetric] input_def[symmetric]
    by simp
qed

lemma absolute_evaluate_image_error:
  assumes "from_template L (or_default t absolute_DEFAULT_SYSTEM_PROMPT) = Inr sp"
    and "with_structured_output llm AbsoluteEvaluationResult_schema = None"
    and "png_save L img = Inl m"
  shows "absolute_evaluate llm L img p t n w = (Inl (ImageError m), w)"
proof -
  have b64: "image_to_base64 L img = Inl (ImageError m)"
    by (simp add: image_to_base64_def assms(3))
  have so: "structured_output llm AbsoluteEvaluationResult_schema = Inr AbsoluteEvaluationResult_schema"
    by (simp add: structured_output_def assms(2))
  show ?thesis
    unfolding absolute_evaluate_def assms(1) and_then_Inr absolute_from_messages so b64
    by simp
qed

lemma absolute_evaluate_prepared:
  assumes "absolute_evaluate llm L img p t n w = (Inr rs, w')"
  shows "\<exists>sp png. from_template L (or_default t absolute_DEFAULT_SYSTEM_PROMPT) = Inr sp \<and>
           with_structured_output llm AbsoluteEvaluationResult_schema = None \<and>
           png_save L img = Inr png"
proof -
  from assms obtain x where
    "and_then (from_template L (or_default t absolute_DEFAULT_SYSTEM_PROMPT))
          (\<lambda>system_prompt. and_then (from_messages L system_prompt absolute_user_prompt)
          (\<lambda>prompt. and_then (structured_output llm AbsoluteEvaluationResult_schema)
          (\<lambda>sch. and_then (image_to_base64 L img)
          (\<lambda>b64. Inr (prompt, sch,
                 [''design_principle'' \<mapsto> p, ''base64_image'' \<mapsto> b64]))))) = Inr x"
    unfolding absolute_evaluate_def by (auto split: sum.splits)
  then obtain sp sch b64 where
    "from_template L (or_default t absolute_DEFAULT_SYSTEM_PROMPT) = Inr sp"
    "structured_output llm AbsoluteEvaluationResult_schema = Inr sch"
    "image_to_base64 L img = Inr b64"
    unfolding and_then_eq_Inr by blast
  then show ?thesis
    by (auto simp: structured_output_eq_Inr image_to_base64_def split: sum.splits)
qed

lemma absolute_evaluate_Inr:
  assumes run: "absolute_evaluate llm L img p t n w = (Inr rs, w')"
  shows "length rs = nat n \<and>
         (\<exists>png sys replies.
            png_save L img = Inr png \<and>
            send_all llm (replicate (nat n) (absolute_request sys png)) w = (map Inr replies, w') \<and>
            map (structured llm (AbsoluteEvaluationResult_validate L)) replies = map Inr rs)"
proof -
  from absolute_evaluate_prepared[OF run] obtain sp png where
    sp: "from_template L (or_default t absolute_DEFAULT_SYSTEM_PROMPT) = Inr sp"
    and so: "with_structured_output llm AbsoluteEvaluationResult_schema = None"
    and png: "png_save L img = Inr png" by blast
  define input where "input = [''design_principle'' \<mapsto> p, ''base64_image'' \<mapsto> b64encode png]"
  define prompt where "prompt = \<lparr>system_template = sp,
        user_templates =
          [Text_template (Plain (map Lit absolute_USER_PROMPT)),
           Image_url_template (Plain (map Lit ''data:image/png;base64,'' @ [Var ''base64_image'']))]\<rparr>"
  have b: "input ''base64_image'' = Some (b64encode png)" by (simp add: input_def)
  have e: "absolute_evaluate llm L img p t n w =
      chain_batch L llm prompt AbsoluteEvaluationResult_schema
        (AbsoluteEvaluationResult_validate L) (replicate (nat n) input) w"
    unfolding prompt_def input_def by (rule absolute_evaluate_chain[OF sp so png])
  show ?thesis
  proof (cases "nat n = 0")
    case True
    with e run have "rs = []" "w' = w" by (simp_all add: chain_batch_Nil)
    with True png show ?thesis by auto
  next
    case False
    then have pos: "0 < nat n" by simp
    show ?thesis
    proof (cases "format_template L sp input")
      case (Inl err)
      then have "format_messages L prompt input = Inl err"
        by (simp add: format_messages_def prompt_def)
      from this pos have "chain_batch L llm prompt AbsoluteEvaluationResult_schema
          (AbsoluteEvaluationResult_validate L) (replicate (nat n) input) w = (Inl err, w)"
        by (rule chain_batch_format_failure)
      with e run show ?thesis by simp
    next
      case (Inr sys)
      from absolute_format_messages[OF Inr b]
      have "format_messages L prompt input =
         Inr [System sys,
              User [Text_block absolute_USER_PROMPT,
                    Image_url_block (''data:image/png;base64,'' @ b64encode png)]]"
        unfolding prompt_def .
      then have "chain_batch L llm prompt AbsoluteEvaluationResult_schema
          (AbsoluteEvaluationResult_validate L) (replicate (nat n) input) w =
           (case send_all llm (replicate (nat n) (absolute_request sys png)) w of
              (outs, w1) \<Rightarrow>
                (and_then (traverse received outs)
                   (traverse (structured llm (AbsoluteEvaluationResult_validate L))), w1))"
        unfolding absolute_request_def by (rule chain_batch_replicate)
      with e run
      have "(case send_all llm (replicate (nat n) (absolute_request sys png)) w of
              (outs, w1) \<Rightarrow>
                (and_then (traverse received outs)
                   (traverse (structured llm (AbsoluteEvaluationResult_validate L))), w1)) =
           (Inr rs, w')"
        by simp
      from batch_result_Inr[OF this] png show ?thesis by auto
    qed
  qed
qed

lemma absolute_evaluate_composed:
  assumes png: "png_save L img = Inr png"
    and so: "with_structured_output llm AbsoluteEvaluationResult_schema = None"
    and scan: "scan_template (or_default t absolute_DEFAULT_SYSTEM_PROMPT) = Segments s"
    and fmt: "format_segments s [''design_principle'' \<mapsto> p, ''base64_image'' \<mapsto> b64encode png] = Inr sys"
  shows "absolute_evaluate llm L img p t n w =
           (case send_all llm (replicate (nat n) (absolute_request sys png)) w of
              (outs, w') \<Rightarrow>
                (and_then (traverse received outs)
                   (traverse (structured llm (AbsoluteEvaluationResult_validate L))), w'))"
proof -
  define input where "input = [''design_principle'' \<mapsto> p, ''base64_image'' \<mapsto> b64encode png]"
  have b: "input ''base64_image'' = Some (b64encode png)" by (simp add: input_def)
  from fmt have f: "format_template L (Plain s) input = Inr sys" by (simp add: input_def)
  note e = absolute_evaluate_chain[OF from_template_Segments[OF scan] so png,
      where p = p and n = n and w = w, folded input_def]
  from absolute_format_messages[OF f b]
  show ?thesis
    unfolding e absolute_request_def by (rule chain_batch_replicate)
qed

lemma validate_seven_ok:
  "AbsoluteEvaluationResult_validate L [''score'' \<mapsto> JInt 7, ''explanation'' \<mapsto> JStr ''ok''] =
     Inr \<lparr>AbsoluteEvaluationResult.score = 7, explanation = ''ok''\<rparr>"
  by (simp add: AbsoluteEvaluationResult_validate_def two_fields_def ge_le_def int_field_def
      str_field_def)

lemma validate_ninety_nine:
  "AbsoluteEvaluationResult_validate L [''score'' \<mapsto> JInt 99, ''explanation'' \<mapsto> JStr ''splendid''] =
     Inl (ValidationError [(''score'', Less_than_equal)])"
  by (simp add: AbsoluteEvaluationResult_validate_def two_fields_def ge_le_def int_field_def
      str_field_def)

lemma absolute_evaluate_constant_reply:
  assumes png: "png_save L img = Inr png"
    and x: "structured (constant_model r) (AbsoluteEvaluationResult_validate L) r = Inr x"
  shows "\<exists>sys. absolute_evaluate (constant_model r) L img p None n v =
             (Inr (replicate (nat n) x),
              v\<lparr>sent := sent v @ replicate (nat n) (absolute_request sys png)\<rparr>)"
proof -
  have so: "with_structured_output (constant_model r) AbsoluteEvaluationResult_schema = None"
    by (simp add: constant_model_def)
  have "parses_with (or_default None absolute_DEFAULT_SYSTEM_PROMPT) [''design_principle'']"
    by (simp add: absolute_default_parses)
  from template_formats[OF this, of p "b64encode png"] obtain s sys where
    scan: "scan_template (or_default None absolute_DEFAULT_SYSTEM_PROMPT) = Segments s"
    and fmt: "format_segments s [''design_principle'' \<mapsto> p, ''base64_image'' \<mapsto> b64encode png] = Inr sys"
    by auto
  have "traverse received (replicate (nat n) (Inr r)) = Inr (replicate (nat n) r)"
    by (simp add: traverse_Inr_iff received_def)
  moreover have "traverse (structured (constant_model r) (AbsoluteEvaluationResult_validate L))
      (replicate (nat n) r) = Inr (replicate (nat n) x)"
    by (simp add: traverse_Inr_iff x)
  ultimately have "absolute_evaluate (constant_model r) L img p None n v =
             (Inr (replicate (nat n) x),
              v\<lparr>sent := sent v @ replicate (nat n) (absolute_request sys png)\<rparr>)"
    unfolding absolute_evaluate_composed[OF png so scan fmt]
    by (simp add: send_all_constant)
  then show ?thesis by blast
qed

lemma png_example: "png_save example_libs b = Inr (png_signature @ pixels b)"
  by (simp add: example_libs_def)

lemma validate_Inr_fields:
  "AbsoluteEvaluationResult_validate L obj = Inr r \<Longrightarrow>
   int_field L obj ''score'' = Inr (AbsoluteEvaluationResult.score r) \<and>
   1 \<le> AbsoluteEvaluationResult.score r \<and> AbsoluteEvaluationResult.score r \<le> 10 \<and>
   str_field L obj ''explanation'' = Inr (AbsoluteEvaluationResult.explanation r)"
  by (auto simp: AbsoluteEvaluationResult_validate_def two_fields_def ge_le_def
      split: sum.splits if_splits)

lemma validate_score_out_of_range:
  "obj ''score'' = Some (JInt s) \<Longrightarrow> s < 1 \<or> 10 < s \<Longrightarrow>
   \<exists>is. AbsoluteEvaluationResult_validate L obj = Inl (ValidationError is)"
  by (auto simp: AbsoluteEvaluationResult_validate_def two_fields_def ge_le_def int_field_def
      split: sum.splits)

lemma validate_missing_field:
  "obj ''score'' = None \<or> obj ''explanation'' = None \<Longrightarrow>
   \<exists>is. AbsoluteEvaluationResult_validate L obj = Inl (ValidationError is)"
  by (auto simp: AbsoluteEvaluationResult_validate_def two_fields_def str_field_def int_field_def
      ge_le_def split: sum.splits)

lemma validate_failure:
  "AbsoluteEvaluationResult_validate L obj = Inl e \<Longrightarrow> \<exists>is. e = ValidationError is"
  unfolding AbsoluteEvaluationResult_validate_def by (rule two_fields_failure)

text \<open>
  Claim C5, amended. Whenever \<open>GPTGraphicDesignAbsoluteEvaluator.evaluate\<close> returns a
  list, the image was written as PNG, exactly \<open>num_return\<close> copies of one request were
  dispatched to the model (the request of the formatted system message and the data URL of
  the image), the model answered each of them, and the list has \<open>num_return\<close> entries, the
  structured outputs of the replies in order. Whenever the image can be written as PNG,
  the model accepts the schema and the system-prompt template is a plain template over
  \<open>design_principle\<close> and \<open>base64_image\<close>, the call dispatches exactly \<open>num_return\<close> copies
  of that request, whatever comes of it, and returns the validated results when every
  reply is an object that validates. With a mocked model that always replies
  \<open>{"score": 7, "explanation": "ok"}\<close> the list holds \<open>num_return\<close> results of score 7 (it is
  empty, with no request dispatched, for \<open>num_return = 0\<close>).
\<close>

theorem absolute_evaluate_dispatches_num_return:
  "(absolute_evaluate llm L img p t n w = (Inr rs, w') \<longrightarrow>
      length rs = nat n \<and>
      (\<exists>png' sys replies.
         png_save L img = Inr png' \<and>
         send_all llm (replicate (nat n) (absolute_request sys png')) w = (map Inr replies, w') \<and>
         sent w' = sent w @ replicate (nat n) (absolute_request sys png') \<and>
         map (structured llm (AbsoluteEvaluationResult_validate L)) replies = map Inr rs)) \<and>
   (png_save L img = Inr png \<and>
    with_structured_output llm AbsoluteEvaluationResult_schema = None \<and>
    parses_with (or_default t absolute_DEFAULT_SYSTEM_PROMPT) vs \<and>
    set vs \<subseteq> {''design_principle'', ''base64_image''} \<longrightarrow>
      (\<exists>s sys.
         scan_template (or_default t absolute_DEFAULT_SYSTEM_PROMPT) = Segments s \<and>
         format_segments s [''design_principle'' \<mapsto> p, ''base64_image'' \<mapsto> b64encode png] = Inr sys \<and>
         snd (absolute_evaluate llm L img p t n w) =
           snd (send_all llm (replicate (nat n) (absolute_request sys png)) w) \<and>
         sent (snd (absolute_evaluate llm L img p t n w)) =
           sent w @ replicate (nat n) (absolute_request sys png) \<and>
         (\<forall>objs rs'.
            fst (send_all llm (replicate (nat n) (absolute_request sys png)) w) =
              map (\<lambda>obj. Inr (Object obj)) objs \<and>
            map (AbsoluteEvaluationResult_validate L) objs = map Inr rs' \<longrightarrow>
              fst (absolute_evaluate llm L img p t n w) = Inr (map Some rs')))) \<and>
   (png_save L img = Inr png \<longrightarrow>
      (\<exists>sys. absolute_evaluate (constant_model seven_ok) L img p None n v =
             (Inr (replicate (nat n)
                     (Some \<lparr>AbsoluteEvaluationResult.score = 7, explanation = ''ok''\<rparr>)),
              v\<lparr>sent := sent v @ replicate (nat n) (absolute_request sys png)\<rparr>)))"
proof (intro conjI impI)
  assume a: "absolute_evaluate llm L img p t n w = (Inr rs, w')"
  from absolute_evaluate_Inr[OF a] show "length rs = nat n" by blast
  from absolute_evaluate_Inr[OF a] obtain png' sys replies where
    png': "png_save L img = Inr png'"
    and s: "send_all llm (replicate (nat n) (absolute_request sys png')) w = (map Inr replies, w')"
    and m: "map (structured llm (AbsoluteEvaluationResult_validate L)) replies = map Inr rs"
    by blast
  from send_all_sent[of llm "replicate (nat n) (absolute_request sys png')" w] s
  have "sent w' = sent w @ replicate (nat n) (absolute_request sys png')" by simp
  with png' s m show "\<exists>png' sys replies.
         png_save L img = Inr png' \<and>
         send_all llm (replicate (nat n) (absolute_request sys png')) w = (map Inr replies, w') \<and>
         sent w' = sent w @ replicate (nat n) (absolute_request sys png') \<and>
         map (structured llm (AbsoluteEvaluationResult_validate L)) replies = map Inr rs"
    by blast
next
  assume h: "png_save L img = Inr png \<and>
    with_structured_output llm AbsoluteEvaluationResult_schema = None \<and>
    parses_with (or_default t absolute_DEFAULT_SYSTEM_PROMPT) vs \<and>
    set vs \<subseteq> {''design_principle'', ''base64_image''}"
  then have png: "png_save L img = Inr png"
    and so: "with_structured_output llm AbsoluteEvaluationResult_schema = None"
    and pw: "parses_with (or_default t absolute_DEFAULT_SYSTEM_PROMPT) vs"
    and vs: "set vs \<subseteq> {''design_principle'', ''base64_image''}" by simp_all
  from template_formats[OF pw vs, of p "b64encode png"] obtain s sys where
    scan: "scan_template (or_default t absolute_DEFAULT_SYSTEM_PROMPT) = Segments s"
    and fmt: "format_segments s [''design_principle'' \<mapsto> p, ''base64_image'' \<mapsto> b64encode png] = Inr sys"
    by blast
  define q where "q = absolute_request sys png"
  define v where "v = AbsoluteEvaluationResult_validate L"
  have c: "absolute_evaluate llm L img p t n w =
           (case send_all llm (replicate (nat n) q) w of
              (outs, w') \<Rightarrow>
                (and_then (traverse received outs) (traverse (structured llm v)), w'))"
    unfolding q_def v_def by (rule absolute_evaluate_composed[OF png so scan fmt])
  have sn: "snd (absolute_evaluate llm L img p t n w) = snd (send_all llm (replicate (nat n) q) w)"
    unfolding c by (simp split: prod.splits)
  have st: "sent (snd (absolute_evaluate llm L img p t n w)) = sent w @ replicate (nat n) q"
    unfolding sn by (rule send_all_sent)
  have ft: "\<forall>objs rs'.
            fst (send_all llm (replicate (nat n) q) w) = map (\<lambda>obj. Inr (Object obj)) objs \<and>
            map v objs = map Inr rs' \<longrightarrow>
              fst (absolute_evaluate llm L img p t n w) = Inr (map Some rs')"
  proof (intro allI impI)
    fix objs rs'
    assume o: "fst (send_all llm (replicate (nat n) q) w) = map (\<lambda>obj. Inr (Object obj)) objs \<and>
            map v objs = map Inr rs'"
    obtain outs w1 where sa: "send_all llm (replicate (nat n) q) w = (outs, w1)"
      by (cases "send_all llm (replicate (nat n) q) w")
    with o have "outs = map Inr (map Object objs)" by simp
    then have r: "traverse received outs = Inr (map Object objs)"
      by (simp only: traverse_map_Inr)
    from o have "traverse (structured llm v) (map Object objs) = Inr (map Some rs')"
      by (intro objects_validated) simp
    with r show "fst (absolute_evaluate llm L img p t n w) = Inr (map Some rs')"
      unfolding c sa by simp
  qed
  from scan fmt sn st ft show "\<exists>s sys.
         scan_template (or_default t absolute_DEFAULT_SYSTEM_PROMPT) = Segments s \<and>
         format_segments s [''design_principle'' \<mapsto> p, ''base64_image'' \<mapsto> b64encode png] = Inr sys \<and>
         snd (absolute_evaluate llm L img p t n w) =
           snd (send_all llm (replicate (nat n) (absolute_request sys png)) w) \<and>
         sent (snd (absolute_evaluate llm L img p t n w)) =
           sent w @ replicate (nat n) (absolute_request sys png) \<and>
         (\<forall>objs rs'.
            fst (send_all llm (replicate (nat n) (absolute_request sys png)) w) =
              map (\<lambda>obj. Inr (Object obj)) objs \<and>
            map (AbsoluteEvaluationResult_validate L) objs = map Inr rs' \<longrightarrow>
              fst (absolute_evaluate llm L img p t n w) = Inr (map Some rs'))"
    unfolding q_def v_def by blast
next
  assume png: "png_save L img = Inr png"
  have "structured (constant_model seven_ok) (AbsoluteEvaluationResult_validate L) seven_ok =
      Inr (Some \<lparr>AbsoluteEvaluationResult.score = 7, explanation = ''ok''\<rparr>)"
    by (simp add: structured_def seven_ok_def validate_seven_ok)
  with png show "\<exists>sys. absolute_evaluate (constant_model seven_ok) L img p None n v =
             (Inr (replicate (nat n)
                     (Some \<lparr>AbsoluteEvaluationResult.score = 7, explanation = ''ok''\<rparr>)),
              v\<lparr>sent := sent v @ replicate (nat n) (absolute_request sys png)\<rparr>)"
    by (rule absolute_evaluate_constant_reply)
qed

text \<open>
  Three samples of a 1x1 bitmap give three results of score 7 and three copies of the one
  request that carries the bitmap's encoding; no sample gives no result and no request.
\<close>

theorem absolute_evaluate_dispatches_num_return_witness:
  "(\<exists>sys. absolute_evaluate (constant_model seven_ok) example_libs black_pixel
           DEFAULT_ALIGNMENT_DESIGN_PRINCIPLE None 3 start =
         (Inr [Some \<lparr>AbsoluteEvaluationResult.score = 7, explanation = ''ok''\<rparr>,
               Some \<lparr>AbsoluteEvaluationResult.score = 7, explanation = ''ok''\<rparr>,
               Some \<lparr>AbsoluteEvaluationResult.score = 7, explanation = ''ok''\<rparr>],
          \<lparr>model_state = (),
           sent = replicate 3 (absolute_request sys (png_signature @ pixels black_pixel))\<rparr>)) \<and>
   absolute_evaluate (constant_model seven_ok) example_libs black_pixel
           DEFAULT_ALIGNMENT_DESIGN_PRINCIPLE None 0 start = (Inr [], start) \<and>
   (\<exists>sys replies w'.
       send_all (constant_model seven_ok)
         (replicate 3 (absolute_request sys (png_signature @ pixels black_pixel))) start =
         (map Inr replies, w') \<and>
       sent w' = replicate 3 (absolute_request sys (png_signature @ pixels black_pixel)) \<and>
       map (structured (constant_model seven_ok) (AbsoluteEvaluationResult_validate example_libs))
         replies =
       map Inr [Some \<lparr>AbsoluteEvaluationResult.score = 7, explanation = ''ok''\<rparr>,
                Some \<lparr>AbsoluteEvaluationResult.score = 7, explanation = ''ok''\<rparr>,
                Some \<lparr>AbsoluteEvaluationResult.score = 7, explanation = ''ok''\<rparr>])"
proof -
  let ?seven = "\<lparr>AbsoluteEvaluationResult.score = 7, explanation = ''ok''\<rparr>"
  let ?good = "[''score'' \<mapsto> JInt 7, ''explanation'' \<mapsto> JStr ''ok'']"
  let ?png = "png_signature @ pixels black_pixel"
  let ?run = "absolute_evaluate (constant_model seven_ok) example_libs black_pixel
           DEFAULT_ALIGNMENT_DESIGN_PRINCIPLE None 3 start"
  note png = png_example[of black_pixel]
  have three: "nat 3 = 3" and zero: "nat 0 = 0" by simp_all
  have accepts: "with_structured_output (constant_model seven_ok) AbsoluteEvaluationResult_schema = None"
    by (simp add: constant_model_def)
  have parses: "parses_with (or_default None absolute_DEFAULT_SYSTEM_PROMPT) [''design_principle'']"
    by (simp add: absolute_default_parses)
  have names: "set [''design_principle''] \<subseteq> {''design_principle'', ''base64_image''}" by simp
  note inst = absolute_evaluate_dispatches_num_return
          [where L = example_libs and img = black_pixel and p = DEFAULT_ALIGNMENT_DESIGN_PRINCIPLE
             and v = start and png = "?png" and llm = "constant_model seven_ok" and w = start
             and t = None and vs = "[''design_principle'']"]
  from inst[where n = 3, THEN conjunct2, THEN conjunct1, rule_format,
      OF conjI[OF png conjI[OF accepts conjI[OF parses names]]]]
  obtain sys where
    sn: "snd ?run = snd (send_all (constant_model seven_ok) (replicate (nat 3) (absolute_request sys ?png)) start)"
    and ft: "\<forall>objs rs'.
            fst (send_all (constant_model seven_ok) (replicate (nat 3) (absolute_request sys ?png)) start) =
              map (\<lambda>obj. Inr (Object obj)) objs \<and>
            map (AbsoluteEvaluationResult_validate example_libs) objs = map Inr rs' \<longrightarrow>
              fst ?run = Inr (map Some rs')"
    by blast
  have outs: "fst (send_all (constant_model seven_ok) (replicate (nat 3) (absolute_request sys ?png)) start) =
      map (\<lambda>obj. Inr (Object obj)) [?good, ?good, ?good]"
    unfolding send_all_constant three by (simp add: seven_ok_def numeral_3_eq_3)
  have valid: "map (AbsoluteEvaluationResult_validate example_libs) [?good, ?good, ?good] =
      map Inr [?seven, ?seven, ?seven]"
    by (simp add: validate_seven_ok)
  from ft[rule_format, OF conjI[OF outs valid]]
  have f: "fst ?run = Inr [Some ?seven, Some ?seven, Some ?seven]" by simp
  from sn have s: "snd ?run =
      \<lparr>model_state = (), sent = replicate 3 (absolute_request sys ?png)\<rparr>"
    unfolding send_all_constant three by (simp add: start_def)
  from f s have run: "?run = (Inr [Some ?seven, Some ?seven, Some ?seven],
      \<lparr>model_state = (), sent = replicate 3 (absolute_request sys ?png)\<rparr>)"
    by (simp add: prod_eq_iff)
  then have a: "\<exists>sys. ?run = (Inr [Some ?seven, Some ?seven, Some ?seven],
      \<lparr>model_state = (), sent = replicate 3 (absolute_request sys ?png)\<rparr>)"
    by blast
  from inst[where n = 0, THEN conjunct2, THEN conjunct2, rule_format, OF png]
  have b: "absolute_evaluate (constant_model seven_ok) example_libs black_pixel
           DEFAULT_ALIGNMENT_DESIGN_PRINCIPLE None 0 start = (Inr [], start)"
    unfolding zero by (simp add: start_def)
  from inst[where n = 3 and rs = "[Some ?seven, Some ?seven, Some ?seven]"
      and w' = "\<lparr>model_state = (), sent = replicate 3 (absolute_request sys ?png)\<rparr>",
      THEN conjunct1, rule_format, OF run]
  obtain png' sys' replies where
    p: "png_save example_libs black_pixel = Inr png'"
    and d: "send_all (constant_model seven_ok) (replicate (nat 3) (absolute_request sys' png')) start =
      (map Inr replies, \<lparr>model_state = (), sent = replicate 3 (absolute_request sys ?png)\<rparr>)"
    and l: "sent \<lparr>model_state = (), sent = replicate 3 (absolute_request sys ?png)\<rparr> =
      sent start @ replicate (nat 3) (absolute_request sys' png')"
    and m: "map (structured (constant_model seven_ok) (AbsoluteEvaluationResult_validate example_libs))
         replies = map Inr [Some ?seven, Some ?seven, Some ?seven]"
    by blast
  from p png have "png' = ?png" by simp
  with d l m have c: "\<exists>sys replies w'.
       send_all (constant_model seven_ok) (replicate 3 (absolute_request sys ?png)) start =
         (map Inr replies, w') \<and>
       sent w' = replicate 3 (absolute_request sys ?png) \<and>
       map (structured (constant_model seven_ok) (AbsoluteEvaluationResult_validate example_libs))
         replies = map Inr [Some ?seven, Some ?seven, Some ?seven]"
    unfolding three by (intro exI[of _ sys'] exI[of _ replies]
        exI[of _ "\<lparr>model_state = (), sent = replicate 3 (absolute_request sys ?png)\<rparr>"])
      (simp add: start_def)
  from a b c show ?thesis by (intro conjI)
qed

text \<open>
  Claim C5 as stated fails: for an image that the image library cannot write as PNG the
  call with \<open>num_return = 3\<close> raises the library's error, with no request dispatched and no
  list returned; and when the model's replies do not validate the requests are dispatched
  but no list is returned.
\<close>

theorem absolute_evaluate_unencodable_image:
  "absolute_evaluate (constant_model seven_ok) unencodable_libs black_pixel
     DEFAULT_ALIGNMENT_DESIGN_PRINCIPLE None 3 start =
     (Inl (ImageError ''cannot write mode F as PNG''), start) \<and>
   sent start = [] \<and>
   (\<exists>is. fst (absolute_evaluate (constant_model ninety_nine) example_libs black_pixel
     DEFAULT_ALIGNMENT_DESIGN_PRINCIPLE None 3 start) = Inl (ValidationError is))"
proof -
  have accepts: "\<And>r. with_structured_output (constant_model r) AbsoluteEvaluationResult_schema = None"
    by (simp add: constant_model_def)
  from from_template_parses[OF absolute_default_parses, of unencodable_libs] obtain s where
    "from_template unencodable_libs (or_default None absolute_DEFAULT_SYSTEM_PROMPT) = Inr (Plain s)"
    by auto
  moreover have "png_save unencodable_libs black_pixel = Inl ''cannot write mode F as PNG''"
    by (simp add: unencodable_libs_def)
  ultimately have a: "absolute_evaluate (constant_model seven_ok) unencodable_libs black_pixel
     DEFAULT_ALIGNMENT_DESIGN_PRINCIPLE None 3 start =
     (Inl (ImageError ''cannot write mode F as PNG''), start)"
    using accepts by (intro absolute_evaluate_image_error)
  have parses: "parses_with (or_default None absolute_DEFAULT_SYSTEM_PROMPT) [''design_principle'']"
    by (simp add: absolute_default_parses)
  from template_formats[OF parses, of DEFAULT_ALIGNMENT_DESIGN_PRINCIPLE
      "b64encode (png_signature @ pixels black_pixel)"]
  obtain s' sys where
    scan: "scan_template (or_default None absolute_DEFAULT_SYSTEM_PROMPT) = Segments s'"
    and fmt: "format_segments s' [''design_principle'' \<mapsto> DEFAULT_ALIGNMENT_DESIGN_PRINCIPLE,
        ''base64_image'' \<mapsto> b64encode (png_signature @ pixels black_pixel)] = Inr sys"
    by auto
  have bad: "structured (constant_model ninety_nine) (AbsoluteEvaluationResult_validate example_libs)
      ninety_nine = Inl (ValidationError [(''score'', Less_than_equal)])"
    by (simp add: structured_def ninety_nine_def validate_ninety_nine)
  have "fst (absolute_evaluate (constant_model ninety_nine) example_libs black_pixel
     DEFAULT_ALIGNMENT_DESIGN_PRINCIPLE None 3 start) =
     Inl (ValidationError [(''score'', Less_than_equal)])"
    unfolding absolute_evaluate_composed[OF png_example accepts scan fmt] send_all_constant
    by (simp add: numeral_3_eq_3 traverse_map_Inr received_def bad)
  with a show ?thesis by (simp add: start_def)
qed

text \<open>
  Claim C7, amended. \<open>GPTGraphicDesignAbsoluteEvaluator.evaluate\<close> drops no sample and
  alters no integer score. A returned list has \<open>num_return\<close> entries, one per reply of the
  model, in order: for a reply that holds an object, the result the schema validated from
  it; for a reply that holds no readable object, Python's \<open>None\<close>, and only when the
  model's binding of the schema raises nothing for that reply. What the schema validates
  has a score within \<open>1..10\<close>, and a score given as an integer is returned as it is. A reply
  whose score is an integer outside \<open>1..10\<close>, or that lacks a field, is a validation
  error. When the model answers every request of the batch and one of its replies is an
  object that does not validate, the call returns no list: it raises a validation error,
  or the exception of the binding for an unreadable reply of the same batch.
\<close>

theorem absolute_evaluate_surfaces_validation_failure:
  "(absolute_evaluate llm L img p t n w = (Inr rs, w') \<longrightarrow>
      (\<exists>q replies.
         send_all llm (replicate (nat n) q) w = (map Inr replies, w') \<and>
         length replies = nat n \<and> length rs = nat n \<and>
         (\<forall>i<nat n.
            case replies ! i of
              Object obj \<Rightarrow> \<exists>r. rs ! i = Some r \<and> AbsoluteEvaluationResult_validate L obj = Inr r
            | Malformed raw \<Rightarrow> rs ! i = None \<and> unreadable llm raw = None))) \<and>
   (AbsoluteEvaluationResult_validate L obj1 = Inr r1 \<longrightarrow>
      1 \<le> AbsoluteEvaluationResult.score r1 \<and> AbsoluteEvaluationResult.score r1 \<le> 10 \<and>
      (\<forall>s. obj1 ''score'' = Some (JInt s) \<longrightarrow> AbsoluteEvaluationResult.score r1 = s) \<and>
      (\<forall>x. obj1 ''explanation'' = Some (JStr x) \<longrightarrow> AbsoluteEvaluationResult.explanation r1 = x)) \<and>
   (obj2 ''score'' = Some (JInt s2) \<and> (s2 < 1 \<or> 10 < s2) \<longrightarrow>
      (\<exists>is. AbsoluteEvaluationResult_validate L obj2 = Inl (ValidationError is))) \<and>
   (obj3 ''score'' = None \<or> obj3 ''explanation'' = None \<longrightarrow>
      (\<exists>is. AbsoluteEvaluationResult_validate L obj3 = Inl (ValidationError is))) \<and>
   (png_save L img = Inr png \<and>
    with_structured_output llm AbsoluteEvaluationResult_schema = None \<and>
    parses_with (or_default t absolute_DEFAULT_SYSTEM_PROMPT) vs \<and>
    set vs \<subseteq> {''design_principle'', ''base64_image''} \<longrightarrow>
      (\<exists>s sys.
         scan_template (or_default t absolute_DEFAULT_SYSTEM_PROMPT) = Segments s \<and>
         format_segments s [''design_principle'' \<mapsto> p, ''base64_image'' \<mapsto> b64encode png] = Inr sys \<and>
         (\<forall>replies k obj e.
            fst (send_all llm (replicate (nat n) (absolute_request sys png)) w) = map Inr replies \<and>
            k < nat n \<and> replies ! k = Object obj \<and>
            AbsoluteEvaluationResult_validate L obj = Inl e \<longrightarrow>
              (\<exists>e'. fst (absolute_evaluate llm L img p t n w) = Inl e' \<and>
                 ((\<exists>is. e' = ValidationError is) \<or>
                  (\<exists>j raw. j < nat n \<and> replies ! j = Malformed raw \<and>
                           unreadable llm raw = Some e'))))))"
proof (intro conjI impI allI)
  assume a: "absolute_evaluate llm L img p t n w = (Inr rs, w')"
  from absolute_evaluate_Inr[OF a] obtain png' sys replies where
    l: "length rs = nat n"
    and s: "send_all llm (replicate (nat n) (absolute_request sys png')) w = (map Inr replies, w')"
    and m: "map (structured llm (AbsoluteEvaluationResult_validate L)) replies = map Inr rs"
    by blast
  from send_all_length[of llm "replicate (nat n) (absolute_request sys png')" w] s
  have lr: "length replies = nat n" by simp
  have "\<forall>i<nat n.
            case replies ! i of
              Object obj \<Rightarrow> \<exists>r. rs ! i = Some r \<and> AbsoluteEvaluationResult_validate L obj = Inr r
            | Malformed raw \<Rightarrow> rs ! i = None \<and> unreadable llm raw = None"
    using reply_entries[OF m] lr by simp
  with s l lr show "\<exists>q replies.
         send_all llm (replicate (nat n) q) w = (map Inr replies, w') \<and>
         length replies = nat n \<and> length rs = nat n \<and>
         (\<forall>i<nat n.
            case replies ! i of
              Object obj \<Rightarrow> \<exists>r. rs ! i = Some r \<and> AbsoluteEvaluationResult_validate L obj = Inr r
            | Malformed raw \<Rightarrow> rs ! i = None \<and> unreadable llm raw = None)"
    by blast
next
  assume v: "AbsoluteEvaluationResult_validate L obj1 = Inr r1"
  note f = validate_Inr_fields[OF v]
  from f show "1 \<le> AbsoluteEvaluationResult.score r1" by simp
  from f show "AbsoluteEvaluationResult.score r1 \<le> 10" by simp
  {
    fix s assume "obj1 ''score'' = Some (JInt s)"
    with f show "AbsoluteEvaluationResult.score r1 = s" by (simp add: int_field_def)
  }
  {
    fix x assume "obj1 ''explanation'' = Some (JStr x)"
    with f show "AbsoluteEvaluationResult.explanation r1 = x" by (simp add: str_field_def)
  }
next
  assume "obj2 ''score'' = Some (JInt s2) \<and> (s2 < 1 \<or> 10 < s2)"
  then show "\<exists>is. AbsoluteEvaluationResult_validate L obj2 = Inl (ValidationError is)"
    using validate_score_out_of_range by blast
next
  assume "obj3 ''score'' = None \<or> obj3 ''explanation'' = None"
  then show "\<exists>is. AbsoluteEvaluationResult_validate L obj3 = Inl (ValidationError is)"
    by (rule validate_missing_field)
next
  assume h: "png_save L img = Inr png \<and>
    with_structured_output llm AbsoluteEvaluationResult_schema = None \<and>
    parses_with (or_default t absolute_DEFAULT_SYSTEM_PROMPT) vs \<and>
    set vs \<subseteq> {''design_principle'', ''base64_image''}"
  then have png: "png_save L img = Inr png"
    and so: "with_structured_output llm AbsoluteEvaluationResult_schema = None"
    and pw: "parses_with (or_default t absolute_DEFAULT_SYSTEM_PROMPT) vs"
    and vs: "set vs \<subseteq> {''design_principle'', ''base64_image''}" by simp_all
  from template_formats[OF pw vs, of p "b64encode png"] obtain s sys where
    scan: "scan_template (or_default t absolute_DEFAULT_SYSTEM_PROMPT) = Segments s"
    and fmt: "format_segments s [''design_principle'' \<mapsto> p, ''base64_image'' \<mapsto> b64encode png] = Inr sys"
    by blast
  define q where "q = absolute_request sys png"
  define v where "v = AbsoluteEvaluationResult_validate L"
  have c: "absolute_evaluate llm L img p t n w =
           (case send_all llm (replicate (nat n) q) w of
              (outs, w') \<Rightarrow>
                (and_then (traverse received outs) (traverse (structured llm v)), w'))"
    unfolding q_def v_def by (rule absolute_evaluate_composed[OF png so scan fmt])
  have vf: "\<And>obj e. v obj = Inl e \<Longrightarrow> \<exists>is. e = ValidationError is"
    unfolding v_def by (rule validate_failure)
  have "\<forall>replies k obj e.
            fst (send_all llm (replicate (nat n) q) w) = map Inr replies \<and>
            k < nat n \<and> replies ! k = Object obj \<and> v obj = Inl e \<longrightarrow>
              (\<exists>e'. fst (absolute_evaluate llm L img p t n w) = Inl e' \<and>
                 ((\<exists>is. e' = ValidationError is) \<or>
                  (\<exists>j raw. j < nat n \<and> replies ! j = Malformed raw \<and>
                           unreadable llm raw = Some e')))"
  proof (intro allI impI)
    fix replies k obj e
    assume o: "fst (send_all llm (replicate (nat n) q) w) = map Inr replies \<and>
            k < nat n \<and> replies ! k = Object obj \<and> v obj = Inl e"
    then have out: "fst (send_all llm (replicate (nat n) q) w) = map Inr replies"
      and k: "k < nat n" "replies ! k = Object obj" "v obj = Inl e" by simp_all
    from send_all_length[of llm "replicate (nat n) q" w] out
    have len: "length replies = nat n" by simp
    from k(1) len have k': "k < length replies" by simp
    have "\<exists>e'. fst (case send_all llm (replicate (nat n) q) w of
                   (outs, w') \<Rightarrow>
                     (and_then (traverse received outs) (traverse (structured llm v)), w')) =
               Inl e' \<and>
             ((\<exists>is. e' = ValidationError is) \<or>
              (\<exists>j raw. j < length replies \<and> replies ! j = Malformed raw \<and>
                       unreadable llm raw = Some e'))"
      by (rule batch_invalid_reply[where validate = v, OF out k' k(2) k(3)]) (rule vf)
    then show "\<exists>e'. fst (absolute_evaluate llm L img p t n w) = Inl e' \<and>
                 ((\<exists>is. e' = ValidationError is) \<or>
                  (\<exists>j raw. j < nat n \<and> replies ! j = Malformed raw \<and>
                           unreadable llm raw = Some e'))"
      unfolding c len .
  qed
  with scan fmt show "\<exists>s sys.
         scan_template (or_default t absolute_DEFAULT_SYSTEM_PROMPT) = Segments s \<and>
         format_segments s [''design_principle'' \<mapsto> p, ''base64_image'' \<mapsto> b64encode png] = Inr sys \<and>
         (\<forall>replies k obj e.
            fst (send_all llm (replicate (nat n) (absolute_request sys png)) w) = map Inr replies \<and>
            k < nat n \<and> replies ! k = Object obj \<and>
            AbsoluteEvaluationResult_validate L obj = Inl e \<longrightarrow>
              (\<exists>e'. fst (absolute_evaluate llm L img p t n w) = Inl e' \<and>
                 ((\<exists>is. e' = ValidationError is) \<or>
                  (\<exists>j raw. j < nat n \<and> replies ! j = Malformed raw \<and>
                           unreadable llm raw = Some e'))))"
    unfolding q_def v_def by blast
qed

text \<open>
  A reply of score 7 is returned as score 7, one entry for one reply; a reply of score 99
  and a reply without explanation do not validate; a reply of score 99 after a valid one
  fails the batch of two with a validation error.
\<close>

theorem absolute_evaluate_surfaces_validation_failure_witness:
  "(\<exists>q replies w'.
      send_all (constant_model seven_ok) (replicate (nat 1) q) start = (map Inr replies, w') \<and>
      length replies = nat 1 \<and>
      (case replies ! 0 of
         Object obj \<Rightarrow>
           \<exists>r. [Some \<lparr>AbsoluteEvaluationResult.score = 7, explanation = ''ok''\<rparr>] ! 0 = Some r \<and>
               AbsoluteEvaluationResult_validate example_libs obj = Inr r
       | Malformed raw \<Rightarrow> False)) \<and>
   AbsoluteEvaluationResult.score \<lparr>AbsoluteEvaluationResult.score = 7, explanation = ''ok''\<rparr> = 7 \<and>
   (\<exists>is. AbsoluteEvaluationResult_validate example_libs
            [''score'' \<mapsto> JInt 99, ''explanation'' \<mapsto> JStr ''splendid''] = Inl (ValidationError is)) \<and>
   (\<exists>is. AbsoluteEvaluationResult_validate example_libs [''score'' \<mapsto> JInt 7] =
            Inl (ValidationError is)) \<and>
   (\<exists>is. fst (absolute_evaluate scripted_model example_libs black_pixel
                 DEFAULT_ALIGNMENT_DESIGN_PRINCIPLE None 2
                 \<lparr>model_state = [seven_ok, ninety_nine], sent = []\<rparr>) =
          Inl (ValidationError is))"
proof -
  let ?good = "[''score'' \<mapsto> JInt 7, ''explanation'' \<mapsto> JStr ''ok'']"
  let ?bad = "[''score'' \<mapsto> JInt 99, ''explanation'' \<mapsto> JStr ''splendid'']"
  let ?seven = "\<lparr>AbsoluteEvaluationResult.score = 7, explanation = ''ok''\<rparr>"
  let ?png = "png_signature @ pixels black_pixel"
  let ?w = "\<lparr>model_state = [seven_ok, ninety_nine], sent = []\<rparr>"
  note png = png_example[of black_pixel]
  have "structured (constant_model seven_ok) (AbsoluteEvaluationResult_validate example_libs) seven_ok =
      Inr (Some ?seven)"
    by (simp add: structured_def seven_ok_def validate_seven_ok)
  from absolute_evaluate_constant_reply[OF png this, of DEFAULT_ALIGNMENT_DESIGN_PRINCIPLE 1 start]
  obtain sys where run: "absolute_evaluate (constant_model seven_ok) example_libs black_pixel
      DEFAULT_ALIGNMENT_DESIGN_PRINCIPLE None 1 start =
        (Inr [Some ?seven], start\<lparr>sent := sent start @ replicate (nat 1) (absolute_request sys ?png)\<rparr>)"
    by auto
  note good = validate_seven_ok[of example_libs]
  have ninety_nine: "?bad ''score'' = Some (JInt 99) \<and> ((99 :: int) < 1 \<or> (10 :: int) < 99)"
    by simp
  have parses: "parses_with (or_default None absolute_DEFAULT_SYSTEM_PROMPT) [''design_principle'']"
    by (simp add: absolute_default_parses)
  have names: "set [''design_principle''] \<subseteq> {''design_principle'', ''base64_image''}" by simp
  note inst = absolute_evaluate_surfaces_validation_failure
      [where L = example_libs and img = black_pixel
         and p = DEFAULT_ALIGNMENT_DESIGN_PRINCIPLE and t = None
         and png = "?png" and vs = "[''design_principle'']"]
  from inst[where llm = "constant_model seven_ok" and w = start and rs = "[Some ?seven]" and n = 1
           and w' = "start\<lparr>sent := sent start @ replicate (nat 1) (absolute_request sys ?png)\<rparr>",
           THEN conjunct1, rule_format, OF run]
  obtain q replies where
    s: "send_all (constant_model seven_ok) (replicate (nat 1) q) start =
      (map Inr replies, start\<lparr>sent := sent start @ replicate (nat 1) (absolute_request sys ?png)\<rparr>)"
    and lr: "length replies = nat 1"
    and en: "\<forall>i<nat 1. case replies ! i of
              Object obj \<Rightarrow> \<exists>r. [Some ?seven] ! i = Some r \<and>
                 AbsoluteEvaluationResult_validate example_libs obj = Inr r
            | Malformed raw \<Rightarrow> [Some ?seven] ! i = None \<and>
                 unreadable (constant_model seven_ok) raw = None"
    by blast
  from en have "case replies ! 0 of
              Object obj \<Rightarrow> \<exists>r. [Some ?seven] ! 0 = Some r \<and>
                 AbsoluteEvaluationResult_validate example_libs obj = Inr r
            | Malformed raw \<Rightarrow> [Some ?seven] ! 0 = None \<and>
                 unreadable (constant_model seven_ok) raw = None"
    by simp
  then have "case replies ! 0 of
         Object obj \<Rightarrow>
           \<exists>r. [Some ?seven] ! 0 = Some r \<and>
               AbsoluteEvaluationResult_validate example_libs obj = Inr r
       | Malformed raw \<Rightarrow> False"
    by (cases "replies ! 0") simp_all
  with s lr have c1: "\<exists>q replies w'.
      send_all (constant_model seven_ok) (replicate (nat 1) q) start = (map Inr replies, w') \<and>
      length replies = nat 1 \<and>
      (case replies ! 0 of
         Object obj \<Rightarrow>
           \<exists>r. [Some ?seven] ! 0 = Some r \<and>
               AbsoluteEvaluationResult_validate example_libs obj = Inr r
       | Malformed raw \<Rightarrow> False)"
    by blast
  from inst[where ?obj1.0 = ?good and ?r1.0 = ?seven, THEN conjunct2, THEN conjunct1, rule_format, OF good]
  have "(\<forall>s. ?good ''score'' = Some (JInt s) \<longrightarrow> AbsoluteEvaluationResult.score ?seven = s)"
    by blast
  then have c2: "AbsoluteEvaluationResult.score ?seven = 7" by simp
  from inst[where ?obj2.0 = ?bad and ?s2.0 = 99, THEN conjunct2, THEN conjunct2, THEN conjunct1,
      rule_format, OF ninety_nine]
  have c3: "\<exists>is. AbsoluteEvaluationResult_validate example_libs ?bad = Inl (ValidationError is)" .
  from inst[where ?obj3.0 = "[''score'' \<mapsto> JInt 7]",
      THEN conjunct2, THEN conjunct2, THEN conjunct2, THEN conjunct1]
  have c4: "\<exists>is. AbsoluteEvaluationResult_validate example_libs [''score'' \<mapsto> JInt 7] =
            Inl (ValidationError is)"
    by simp
  have accepts: "with_structured_output scripted_model AbsoluteEvaluationResult_schema = None"
    by (simp add: scripted_model_def)
  from inst[where llm = scripted_model and n = 2 and w = ?w,
      THEN conjunct2, THEN conjunct2, THEN conjunct2, THEN conjunct2, rule_format,
      OF conjI[OF png conjI[OF accepts conjI[OF parses names]]]]
  obtain sys' where fl: "\<forall>replies k obj e.
            fst (send_all scripted_model (replicate (nat 2) (absolute_request sys' ?png)) ?w) =
              map Inr replies \<and>
            k < nat 2 \<and> replies ! k = Object obj \<and>
            AbsoluteEvaluationResult_validate example_libs obj = Inl e \<longrightarrow>
              (\<exists>e'. fst (absolute_evaluate scripted_model example_libs black_pixel
                          DEFAULT_ALIGNMENT_DESIGN_PRINCIPLE None 2 ?w) = Inl e' \<and>
                 ((\<exists>is. e' = ValidationError is) \<or>
                  (\<exists>j raw. j < nat 2 \<and> replies ! j = Malformed raw \<and>
                           unreadable scripted_model raw = Some e')))"
    by blast
  have outs: "fst (send_all scripted_model (replicate (nat 2) (absolute_request sys' ?png)) ?w) =
      map Inr [seven_ok, ninety_nine]"
    by (subst send_all_scripted) simp_all
  have k: "(1 :: nat) < nat 2" by simp
  have r: "[seven_ok, ninety_nine] ! 1 = Object ?bad" by (simp add: ninety_nine_def)
  note bad = validate_ninety_nine[of example_libs]
  from fl[rule_format, OF conjI[OF outs conjI[OF k conjI[OF r bad]]]]
  obtain e' where
    f: "fst (absolute_evaluate scripted_model example_libs black_pixel
          DEFAULT_ALIGNMENT_DESIGN_PRINCIPLE None 2 ?w) = Inl e'"
    and d: "(\<exists>is. e' = ValidationError is) \<or>
            (\<exists>j raw. j < nat 2 \<and> [seven_ok, ninety_nine] ! j = Malformed raw \<and>
                     unreadable scripted_model raw = Some e')"
    by blast
  have "\<not> (\<exists>j raw. j < nat 2 \<and> [seven_ok, ninety_nine] ! j = Malformed raw \<and>
                     unreadable scripted_model raw = Some e')"
    by (simp add: scripted_model_def)
  with d f have c5: "\<exists>is. fst (absolute_evaluate scripted_model example_libs black_pixel
                 DEFAULT_ALIGNMENT_DESIGN_PRINCIPLE None 2 ?w) = Inl (ValidationError is)"
    by auto
  from c1 c2 c3 c4 c5 show ?thesis by (intro conjI)
qed

text \<open>
  Claim C7 as stated fails for a reply that is not a readable object: a model that binds
  the schema by tool calling raises nothing for such a reply, and the call returns a list
  that holds \<open>None\<close> in its place.
\<close>

theorem absolute_evaluate_unreadable_reply:
  "fst (absolute_evaluate (constant_model (Malformed ''I cannot score this image.'')) example_libs black_pixel
     DEFAULT_ALIGNMENT_DESIGN_PRINCIPLE None 1 start) = Inr [None]"
proof -
  have "structured (constant_model (Malformed ''I cannot score this image.''))
      (AbsoluteEvaluationResult_validate example_libs) (Malformed ''I cannot score this image.'') = Inr None"
    by (simp add: structured_def constant_model_def)
  from absolute_evaluate_constant_reply[OF png_example this,
      of black_pixel DEFAULT_ALIGNMENT_DESIGN_PRINCIPLE 1 start]
  show ?thesis by auto
qed

section \<open>The single-result evaluator\<close>

lemma two_fields_map_sum:
  "two_fields a b (\<lambda>x y. f (mk x y)) = map_sum id f (two_fields a b mk)"
  by (auto simp: two_fields_def split: sum.splits)

lemma validate_as_absolute:
  "AbsoluteEvaluationResult_validate L obj = map_sum id as_absolute (EvaluationResult_validate L obj)"
  unfolding AbsoluteEvaluationResult_validate_def EvaluationResult_validate_def
  by (subst two_fields_map_sum[symmetric]) (simp add: as_absolute_def)

lemma system_prompts_equal: "SYSTEM_PROMPT = absolute_DEFAULT_SYSTEM_PROMPT"
  unfolding SYSTEM_PROMPT_def absolute_DEFAULT_SYSTEM_PROMPT_def by (rule refl)

lemma user_prompts_equal: "evaluator_USER_PROMPT = absolute_USER_PROMPT"
  unfolding evaluator_USER_PROMPT_def absolute_USER_PROMPT_def by (rule refl)

lemma encoders_equal: "evaluator_image_to_base64 L img = image_to_base64 L img"
  by (simp add: evaluator_image_to_base64_def image_to_base64_def)

lemma chain_invoke_batch:
  assumes gen: "\<And>ms s. generate llm \<lparr>output_schema = EvaluationResult_schema, messages = ms\<rparr> s =
                        generate llm \<lparr>output_schema = AbsoluteEvaluationResult_schema, messages = ms\<rparr> s"
  shows "fst (chain_batch L llm prompt AbsoluteEvaluationResult_schema
                  (AbsoluteEvaluationResult_validate L) [input] w) =
           map_sum id (\<lambda>r. [map_option as_absolute r])
             (fst (chain_invoke L llm prompt EvaluationResult_schema
                  (EvaluationResult_validate L) input w)) \<and>
         model_state (snd (chain_batch L llm prompt AbsoluteEvaluationResult_schema
                  (AbsoluteEvaluationResult_validate L) [input] w)) =
           model_state (snd (chain_invoke L llm prompt EvaluationResult_schema
                  (EvaluationResult_validate L) input w)) \<and>
         map messages (sent (snd (chain_batch L llm prompt AbsoluteEvaluationResult_schema
                  (AbsoluteEvaluationResult_validate L) [input] w))) =
           map messages (sent (snd (chain_invoke L llm prompt EvaluationResult_schema
                  (EvaluationResult_validate L) input w)))"
proof (cases "format_messages L prompt input")
  case (Inl e)
  then show ?thesis by (simp add: chain_batch_def chain_invoke_def)
next
  case (Inr ms)
  obtain out s' where g: "generate llm \<lparr>output_schema = AbsoluteEvaluationResult_schema, messages = ms\<rparr>
      (model_state w) = (out, s')"
    by (cases "generate llm \<lparr>output_schema = AbsoluteEvaluationResult_schema, messages = ms\<rparr> (model_state w)")
  with gen have g': "generate llm \<lparr>output_schema = EvaluationResult_schema, messages = ms\<rparr>
      (model_state w) = (out, s')" by simp
  have "and_then (traverse received [out]) (traverse (structured llm (AbsoluteEvaluationResult_validate L))) =
        map_sum id (\<lambda>r. [map_option as_absolute r]) (and_then (received out) (structured llm (EvaluationResult_validate L)))"
  proof (cases out)
    case (Inl m)
    then show ?thesis by (simp add: received_def)
  next
    case r: (Inr rep)
    show ?thesis
    proof (cases rep)
      case (Object obj)
      with r show ?thesis
        by (cases "EvaluationResult_validate L obj")
           (simp_all add: received_def structured_def validate_as_absolute)
    next
      case (Malformed raw)
      with r show ?thesis
        by (cases "unreadable llm raw") (simp_all add: received_def structured_def)
    qed
  qed
  with Inr g g' show ?thesis
    by (simp add: chain_batch_def chain_invoke_def send_def)
qed

text \<open>
  Claim C10. For a model that behaves the same whichever of the two result schemas it is
  bound to, and for the same image, design-principle prompt and system-prompt template,
  \<open>GPTGraphicDesignEvaluator.evaluate\<close> returns the single element of the list that
  \<open>GPTGraphicDesignAbsoluteEvaluator.evaluate\<close> returns for \<open>num_return = 1\<close>, field by
  field (\<open>None\<close> where the other gives \<open>None\<close>), or raises the same exception; the model
  is left in the same state and has received the same messages. The two evaluators have the same default system prompt and
  the same user prompt, encode the image identically, and their result schemas validate
  the same replies to the same fields.
\<close>

theorem evaluator_agrees_with_absolute_evaluator:
  assumes "with_structured_output llm EvaluationResult_schema =
           with_structured_output llm AbsoluteEvaluationResult_schema"
    and "\<And>ms s. generate llm \<lparr>output_schema = EvaluationResult_schema, messages = ms\<rparr> s =
                 generate llm \<lparr>output_schema = AbsoluteEvaluationResult_schema, messages = ms\<rparr> s"
  shows "fst (absolute_evaluate llm L img p t 1 w) =
           map_sum id (\<lambda>r. [map_option as_absolute r]) (fst (evaluator_evaluate llm L img p t w)) \<and>
         model_state (snd (absolute_evaluate llm L img p t 1 w)) =
           model_state (snd (evaluator_evaluate llm L img p t w)) \<and>
         map messages (sent (snd (absolute_evaluate llm L img p t 1 w))) =
           map messages (sent (snd (evaluator_evaluate llm L img p t w))) \<and>
         SYSTEM_PROMPT = absolute_DEFAULT_SYSTEM_PROMPT \<and>
         evaluator_USER_PROMPT = absolute_USER_PROMPT \<and>
         evaluator_image_to_base64 L img = image_to_base64 L img \<and>
         AbsoluteEvaluationResult_validate L obj =
           map_sum id as_absolute (EvaluationResult_validate L obj)"
proof -
  define input where "input b64 = [''design_principle'' \<mapsto> p, ''base64_image'' \<mapsto> b64]" for b64 :: string
  define T where "T = from_template L (or_default t absolute_DEFAULT_SYSTEM_PROMPT)"
  have up: "evaluator_user_prompt = absolute_user_prompt"
    by (simp add: evaluator_user_prompt_def absolute_user_prompt_def user_prompts_equal)
  have main: "fst (absolute_evaluate llm L img p t 1 w) =
           map_sum id (\<lambda>r. [map_option as_absolute r]) (fst (evaluator_evaluate llm L img p t w)) \<and>
         model_state (snd (absolute_evaluate llm L img p t 1 w)) =
           model_state (snd (evaluator_evaluate llm L img p t w)) \<and>
         map messages (sent (snd (absolute_evaluate llm L img p t 1 w))) =
           map messages (sent (snd (evaluator_evaluate llm L img p t w)))"
  proof (cases T)
    case (Inl e)
    then show ?thesis
      unfolding absolute_evaluate_def evaluator_evaluate_def system_prompts_equal T_def[symmetric]
      by simp
  next
    case sp: (Inr system_prompt)
    show ?thesis
    proof (cases "from_messages L system_prompt absolute_user_prompt")
      case (Inl e)
      with sp show ?thesis
        unfolding absolute_evaluate_def evaluator_evaluate_def system_prompts_equal T_def[symmetric] up
        by simp
    next
      case pr: (Inr prompt)
      show ?thesis
      proof (cases "with_structured_output llm AbsoluteEvaluationResult_schema")
        case (Some m)
        with sp pr assms(1) show ?thesis
          unfolding absolute_evaluate_def evaluator_evaluate_def system_prompts_equal T_def[symmetric] up
          by (simp add: structured_output_def)
      next
        case None
        show ?thesis
        proof (cases "image_to_base64 L img")
          case (Inl e)
          with sp pr None assms(1) show ?thesis
            unfolding absolute_evaluate_def evaluator_evaluate_def system_prompts_equal
              T_def[symmetric] up encoders_equal
            by (simp add: structured_output_def)
        next
          case (Inr b64)
          have a: "absolute_evaluate llm L img p t 1 w =
              chain_batch L llm prompt AbsoluteEvaluationResult_schema
                  (AbsoluteEvaluationResult_validate L) [input b64] w"
            unfolding absolute_evaluate_def T_def[symmetric] sp and_then_Inr pr input_def[symmetric]
            by (simp add: structured_output_def None Inr)
          have b: "evaluator_evaluate llm L img p t w =
              chain_invoke L llm prompt EvaluationResult_schema
                  (EvaluationResult_validate L) (input b64) w"
            unfolding evaluator_evaluate_def system_prompts_equal T_def[symmetric] sp and_then_Inr up pr
              encoders_equal input_def[symmetric]
            by (simp add: structured_output_def None assms(1) Inr)
          from chain_invoke_batch[OF assms(2), of L prompt "input b64" w] show ?thesis
            unfolding a b .
        qed
      qed
    qed
  qed
  show ?thesis
    by (intro conjI main[THEN conjunct1] main[THEN conjunct2, THEN conjunct1]
        main[THEN conjunct2, THEN conjunct2] system_prompts_equal user_prompts_equal
        encoders_equal validate_as_absolute)
qed

theorem evaluator_agrees_with_absolute_evaluator_witness:
  "fst (absolute_evaluate (constant_model seven_ok) example_libs black_pixel
          DEFAULT_WHITE_SPACE_DESIGN_PRINCIPLE None 1 start) =
     Inr [Some \<lparr>AbsoluteEvaluationResult.score = 7, explanation = ''ok''\<rparr>] \<and>
   fst (evaluator_evaluate (constant_model seven_ok) example_libs black_pixel
          DEFAULT_WHITE_SPACE_DESIGN_PRINCIPLE None start) =
     Inr (Some \<lparr>EvaluationResult.score = 7, explanation = ''ok''\<rparr>)"
proof -
  have "structured (constant_model seven_ok) (AbsoluteEvaluationResult_validate example_libs) seven_ok =
      Inr (Some \<lparr>AbsoluteEvaluationResult.score = 7, explanation = ''ok''\<rparr>)"
    by (simp add: structured_def seven_ok_def validate_seven_ok)
  from absolute_evaluate_constant_reply[OF png_example this, of black_pixel
      DEFAULT_WHITE_SPACE_DESIGN_PRINCIPLE 1 start]
  have a: "fst (absolute_evaluate (constant_model seven_ok) example_libs black_pixel
          DEFAULT_WHITE_SPACE_DESIGN_PRINCIPLE None 1 start) =
     Inr [Some \<lparr>AbsoluteEvaluationResult.score = 7, explanation = ''ok''\<rparr>]"
    by auto
  have "fst (absolute_evaluate (constant_model seven_ok) example_libs black_pixel
          DEFAULT_WHITE_SPACE_DESIGN_PRINCIPLE None 1 start) =
     map_sum id (\<lambda>r. [map_option as_absolute r])
       (fst (evaluator_evaluate (constant_model seven_ok) example_libs black_pixel
          DEFAULT_WHITE_SPACE_DESIGN_PRINCIPLE None start))"
    using evaluator_agrees_with_absolute_evaluator
          [of "constant_model seven_ok" example_libs black_pixel
              DEFAULT_WHITE_SPACE_DESIGN_PRINCIPLE None start]
    by (simp add: constant_model_def)
  with a obtain ro where ro: "fst (evaluator_evaluate (constant_model seven_ok) example_libs black_pixel
          DEFAULT_WHITE_SPACE_DESIGN_PRINCIPLE None start) = Inr ro"
    and "map_option as_absolute ro = Some \<lparr>AbsoluteEvaluationResult.score = 7, explanation = ''ok''\<rparr>"
    by (cases "fst (evaluator_evaluate (constant_model seven_ok) example_libs black_pixel
          DEFAULT_WHITE_SPACE_DESIGN_PRINCIPLE None start)") auto
  then obtain r where "ro = Some r"
    and "as_absolute r = \<lparr>AbsoluteEvaluationResult.score = 7, explanation = ''ok''\<rparr>"
    by (cases ro) auto
  then have "ro = Some \<lparr>EvaluationResult.score = 7, explanation = ''ok''\<rparr>"
    by (cases r) (simp add: as_absolute_def)
  with a ro show ?thesis by simp
qed

section \<open>The principle-tag shortcuts\<close>

lemma design_principles_getitem:
  "design_principle \<in> {''alignment'', ''overlap'', ''whitespace''} \<Longrightarrow>
   \<exists>text. getitem DESIGN_PRINCIPLES design_principle = Inr text"
  by (auto simp: getitem_def DESIGN_PRINCIPLES_def)

text \<open>
  Claim C9. For every valid design-principle tag, \<open>__call__\<close> of the absolute evaluator
  returns what its \<open>evaluate\<close> returns on the catalog text of the tag and the default
  system-prompt template (passed explicitly, or left out); \<open>__call__\<close> of the relative
  evaluator forwards to its \<open>evaluate\<close> in the same way.
\<close>

theorem call_forwards_to_evaluate:
  assumes "design_principle \<in> {''alignment'', ''overlap'', ''whitespace''}"
  shows "\<exists>text. getitem DESIGN_PRINCIPLES design_principle = Inr text \<and>
           absolute_call llm L img design_principle n w =
             absolute_evaluate llm L img text (Some absolute_DEFAULT_SYSTEM_PROMPT) n w \<and>
           absolute_evaluate llm L img text (Some absolute_DEFAULT_SYSTEM_PROMPT) n w =
             absolute_evaluate llm L img text None n w \<and>
           relative_call llm L image_a image_b design_principle n w =
             relative_evaluate llm L image_a image_b text (Some relative_DEFAULT_SYSTEM_PROMPT) n w \<and>
           relative_evaluate llm L image_a image_b text (Some relative_DEFAULT_SYSTEM_PROMPT) n w =
             relative_evaluate llm L image_a image_b text None n w"
proof -
  from design_principles_getitem[OF assms] obtain body where
    t: "getitem DESIGN_PRINCIPLES design_principle = Inr body" by blast
  have "absolute_call llm L img design_principle n w =
          absolute_evaluate llm L img body (Some absolute_DEFAULT_SYSTEM_PROMPT) n w"
    by (simp add: absolute_call_def t)
  moreover have "absolute_evaluate llm L img body (Some absolute_DEFAULT_SYSTEM_PROMPT) n w =
          absolute_evaluate llm L img body None n w"
    unfolding absolute_evaluate_def or_default_same or_default_None ..
  moreover have "relative_call llm L image_a image_b design_principle n w =
          relative_evaluate llm L image_a image_b body (Some relative_DEFAULT_SYSTEM_PROMPT) n w"
    by (simp add: relative_call_def t)
  moreover have "relative_evaluate llm L image_a image_b body (Some relative_DEFAULT_SYSTEM_PROMPT) n w =
          relative_evaluate llm L image_a image_b body None n w"
    unfolding relative_evaluate_def or_default_same or_default_None ..
  ultimately show ?thesis using t by blast
qed

theorem call_forwards_to_evaluate_witness:
  "absolute_call (constant_model seven_ok) example_libs black_pixel ''overlap'' 2 start =
     absolute_evaluate (constant_model seven_ok) example_libs black_pixel
       DEFAULT_OVERLAP_DESIGN_PRINCIPLE (Some absolute_DEFAULT_SYSTEM_PROMPT) 2 start \<and>
   relative_call (constant_model seven_ok) example_libs black_pixel white_pixel ''overlap'' 2 start =
     relative_evaluate (constant_model seven_ok) example_libs black_pixel white_pixel
       DEFAULT_OVERLAP_DESIGN_PRINCIPLE (Some relative_DEFAULT_SYSTEM_PROMPT) 2 start"
proof -
  have k: "''overlap'' \<in> {''alignment'', ''overlap'', ''whitespace''}" by simp
  have g: "getitem DESIGN_PRINCIPLES ''overlap'' = Inr DEFAULT_OVERLAP_DESIGN_PRINCIPLE"
    by (simp add: getitem_def DESIGN_PRINCIPLES_def)
  from call_forwards_to_evaluate[OF k, of "constant_model seven_ok" example_libs black_pixel 2 start
      black_pixel white_pixel] g
  show ?thesis by auto
qed

section \<open>The relative evaluator\<close>

lemma load_name_image:
  "load_name (relative_evaluate_locals image_a image_b @ relative_module_globals) ''image'' =
     Inl (NameError ''image'')"
  by (simp add: load_name_def relative_evaluate_locals_def relative_module_globals_def)

lemma relative_from_messages:
  "\<exists>prompt. from_messages L system_prompt relative_user_prompt = Inr prompt"
  using from_messages_ok[OF relative_user_parses, of L system_prompt]
  unfolding relative_user_prompt_def by blast

lemma relative_evaluate_fails: "\<exists>e. relative_evaluate llm L image_a image_b p t n w = (Inl e, w)"
proof (cases "from_template L (or_default t relative_DEFAULT_SYSTEM_PROMPT)")
  case (Inl e)
  then show ?thesis by (simp add: relative_evaluate_def)
next
  case (Inr system_prompt)
  from relative_from_messages obtain prompt where
    pr: "from_messages L system_prompt relative_user_prompt = Inr prompt" by blast
  show ?thesis
    unfolding relative_evaluate_def Inr and_then_Inr pr load_name_image
    by (cases "structured_output llm RelativeEvaluationResult_schema") simp_all
qed

lemma relative_evaluate_NameError:
  assumes "from_template L (or_default t relative_DEFAULT_SYSTEM_PROMPT) = Inr system_prompt"
    and "with_structured_output llm RelativeEvaluationResult_schema = None"
  shows "relative_evaluate llm L image_a image_b p t n w = (Inl (NameError ''image''), w)"
proof -
  from relative_from_messages obtain prompt where
    pr: "from_messages L system_prompt relative_user_prompt = Inr prompt" by blast
  show ?thesis
    unfolding relative_evaluate_def assms(1) and_then_Inr pr load_name_image
    by (simp add: structured_output_def assms(2))
qed

text \<open>
  Claim C2, amended. No call of \<open>GPTGraphicDesignRelativeEvaluator.evaluate\<close> returns a
  result list or dispatches a request: every call raises. Whenever the system-prompt
  template is accepted as a template and the model accepts the result schema, the
  exception is the unbound-name error for \<open>image\<close>.
\<close>

theorem relative_evaluate_never_returns:
  "(\<exists>e. relative_evaluate llm L image_a image_b p t n w = (Inl e, w)) \<and>
   ((\<exists>system_prompt. from_template L (or_default t relative_DEFAULT_SYSTEM_PROMPT) = Inr system_prompt) \<and>
    with_structured_output llm RelativeEvaluationResult_schema = None \<longrightarrow>
      relative_evaluate llm L image_a image_b p t n w = (Inl (NameError ''image''), w))"
proof (intro conjI impI)
  show "\<exists>e. relative_evaluate llm L image_a image_b p t n w = (Inl e, w)"
    by (rule relative_evaluate_fails)
next
  assume "(\<exists>system_prompt. from_template L (or_default t relative_DEFAULT_SYSTEM_PROMPT) = Inr system_prompt) \<and>
    with_structured_output llm RelativeEvaluationResult_schema = None"
  then obtain system_prompt where
    "from_template L (or_default t relative_DEFAULT_SYSTEM_PROMPT) = Inr system_prompt"
    "with_structured_output llm RelativeEvaluationResult_schema = None" by blast
  then show "relative_evaluate llm L image_a image_b p t n w = (Inl (NameError ''image''), w)"
    by (rule relative_evaluate_NameError)
qed

theorem relative_evaluate_never_returns_witness:
  "relative_evaluate (constant_model seven_ok) example_libs black_pixel white_pixel
     DEFAULT_OVERLAP_DESIGN_PRINCIPLE None 3 start = (Inl (NameError ''image''), start)"
proof -
  from from_template_parses[OF relative_default_parses, of example_libs]
  have "\<exists>system_prompt. from_template example_libs (or_default None relative_DEFAULT_SYSTEM_PROMPT) =
      Inr system_prompt" by auto
  moreover have "with_structured_output (constant_model seven_ok) RelativeEvaluationResult_schema = None"
    by (simp add: constant_model_def)
  ultimately show ?thesis
    using relative_evaluate_never_returns[of "constant_model seven_ok" example_libs black_pixel
        white_pixel DEFAULT_OVERLAP_DESIGN_PRINCIPLE None 3 start]
    by blast
qed

text \<open>
  Claim C2 as stated fails: for the template \<open>{\<close> the call raises the template's
  \<open>ValueError\<close>, before the name \<open>image\<close> is read.
\<close>

theorem relative_evaluate_malformed_template:
  "relative_evaluate (constant_model seven_ok) example_libs black_pixel white_pixel
     DEFAULT_OVERLAP_DESIGN_PRINCIPLE (Some ''{'') 1 start =
     (Inl (ValueError ''Single '{' encountered in format string''), start) \<and>
   fst (relative_evaluate (constant_model seven_ok) example_libs black_pixel white_pixel
     DEFAULT_OVERLAP_DESIGN_PRINCIPLE (Some ''{'') 1 start) \<noteq> Inl (NameError ''image'')"
  by (simp add: relative_evaluate_def or_default_def from_template_def)

text \<open>
  Claim C1 says that the request composed by the relative evaluator holds two distinct
  image payloads, one per input image. The code does not do so: for two 1x1 bitmaps whose
  encodings differ, the call raises the unbound-name error for \<open>image\<close> with no request
  composed, and the user message it would format has a single image reference.
\<close>

theorem relative_evaluate_single_image:
  "relative_evaluate (constant_model seven_ok) example_libs black_pixel white_pixel
     DEFAULT_OVERLAP_DESIGN_PRINCIPLE None 1 start = (Inl (NameError ''image''), start) \<and>
   image_urls relative_user_prompt = [''data:image/png;base64,{base64_image}''] \<and>
   image_to_base64 example_libs black_pixel = Inr ''iVBORw0KGgoAAAA='' \<and>
   image_to_base64 example_libs white_pixel = Inr ''iVBORw0KGgr///8=''"
proof -
  from from_template_parses[OF relative_default_parses, of example_libs] obtain s where
    "from_template example_libs (or_default None relative_DEFAULT_SYSTEM_PROMPT) = Inr (Plain s)"
    by auto
  moreover have "with_structured_output (constant_model seven_ok) RelativeEvaluationResult_schema = None"
    by (simp add: constant_model_def)
  ultimately have "relative_evaluate (constant_model seven_ok) example_libs black_pixel white_pixel
     DEFAULT_OVERLAP_DESIGN_PRINCIPLE None 1 start = (Inl (NameError ''image''), start)"
    by (rule relative_evaluate_NameError)
  moreover have "image_urls relative_user_prompt = [''data:image/png;base64,{base64_image}'']"
    by (simp add: relative_user_prompt_def)
  moreover have "image_to_base64 example_libs black_pixel = Inr ''iVBORw0KGgoAAAA=''"
    by (simp add: image_to_base64_def example_libs_def png_signature_def black_pixel_def
        sextet_def b64_alphabet_def)
  moreover have "image_to_base64 example_libs white_pixel = Inr ''iVBORw0KGgr///8=''"
    by (simp add: image_to_base64_def example_libs_def png_signature_def white_pixel_def
        sextet_def b64_alphabet_def)
  ultimately show ?thesis by simp
qed

end

